theory Spec2Isabelle
  imports Complex_Main "HOL-Library.AList"
begin

section \<open>Numbers\<close>

text \<open>
  The notebook computes with numpy float64 values. Finite values are modelled by exact
  reals (rounding is not modelled); \<open>NonFinite\<close> stands for any of the IEEE values
  inf, -inf and NaN, which numpy produces, with a warning and without raising, where a
  division has a zero divisor or a mean is taken of nothing.
\<close>

datatype npfloat = Finite real | NonFinite

fun is_finite :: "npfloat \<Rightarrow> bool" where
  "is_finite (Finite x) = True"
| "is_finite NonFinite = False"

text \<open>Division by a finite divisor: \<open>x / 0.0\<close> is inf or NaN, never an exception.\<close>

fun np_div :: "npfloat \<Rightarrow> real \<Rightarrow> npfloat" where
  "np_div (Finite x) y = (if y = 0 then NonFinite else Finite (x / y))"
| "np_div NonFinite y = NonFinite"

fun np_add :: "npfloat \<Rightarrow> npfloat \<Rightarrow> npfloat" where
  "np_add (Finite x) (Finite y) = Finite (x + y)"
| "np_add x y = NonFinite"

fun np_sub :: "npfloat \<Rightarrow> npfloat \<Rightarrow> npfloat" where
  "np_sub (Finite x) (Finite y) = Finite (x - y)"
| "np_sub x y = NonFinite"

definition np_sum :: "npfloat list \<Rightarrow> npfloat" where
  "np_sum xs = foldl np_add (Finite 0) xs"

text \<open>
  \<open>.mean()\<close>: the mean of an empty selection is NaN. xarray's means skip NaN values;
  a series computed by the cells is finite throughout or non-finite throughout, since its
  weighted sums are all divided by the one total weight of its grid, so a mean taken
  there never mixes finite values with NaN.
\<close>

definition np_mean :: "npfloat list \<Rightarrow> npfloat" where
  "np_mean xs = (if xs = [] then NonFinite else np_div (np_sum xs) (real (length xs)))"

section \<open>Spatial averaging\<close>

text \<open>
  A data variable is indexed by time, latitude and longitude. The weights are
  \<open>np.cos(np.deg2rad(ds['lat'])) * xr.ones_like(ds['lon'])\<close>: one row per latitude,
  constant along longitude.
\<close>

type_synonym field = "real list list list"

definition deg2rad :: "real \<Rightarrow> real" where
  "deg2rad d = d * (pi / 180)"

definition cos_lat_2d :: "real list \<Rightarrow> real list \<Rightarrow> real list list" where
  "cos_lat_2d lat lon = map (\<lambda>phi. map (\<lambda>l. cos (deg2rad phi) * 1) lon) lat"

definition sum2 :: "real list list \<Rightarrow> real" where
  "sum2 g = sum_list (map sum_list g)"

definition mul2 :: "real list list \<Rightarrow> real list list \<Rightarrow> real list list" where
  "mul2 g w = map2 (map2 (*)) g w"

text \<open>
  \<open>(f * cos_lat_2d).sum(dim=['lat','lon']) / cos_lat_2d.sum(dim=['lat','lon'])\<close>,
  one value per time step.
\<close>

definition global_mean :: "real list \<Rightarrow> real list \<Rightarrow> field \<Rightarrow> npfloat list" where
  "global_mean lat lon f =
     map (\<lambda>g. np_div (Finite (sum2 (mul2 g (cos_lat_2d lat lon)))) (sum2 (cos_lat_2d lat lon))) f"

text \<open>\<open>net_toa = ds_rad['rsdt'] - ds_rad['rsut'] - ds_rad['rlut']\<close>, pointwise.\<close>

definition sub3 :: "field \<Rightarrow> field \<Rightarrow> field" where
  "sub3 f g = map2 (map2 (map2 (-))) f g"

definition net_toa :: "field \<Rightarrow> field \<Rightarrow> field \<Rightarrow> field" where
  "net_toa rsdt rsut rlut = sub3 (sub3 rsdt rsut) rlut"

definition imbalance_of :: "real list \<Rightarrow> real list \<Rightarrow> field \<Rightarrow> field \<Rightarrow> field \<Rightarrow> npfloat list" where
  "imbalance_of lat lon rsdt rsut rlut = global_mean lat lon (net_toa rsdt rsut rlut)"



section \<open>Errors\<close>

text \<open>The exceptions the notebook can raise; none of them is caught anywhere, so an
  \<open>Inl\<close> result ends the cell that raised it.\<close>

datatype error = KeyError | IndexError | ValueError | TypeError | LinAlgError

fun err_bind :: "error + 'a \<Rightarrow> ('a \<Rightarrow> error + 'b) \<Rightarrow> error + 'b" where
  "err_bind (Inl e) f = Inl e"
| "err_bind (Inr x) f = f x"

text \<open>\<open>d[k]\<close> on a dictionary, kept as an association list in insertion order;
  \<open>d[k] = v\<close> is \<open>AList.update\<close>, which overwrites in place or appends.\<close>

definition dict_get :: "(string \<times> 'a) list \<Rightarrow> string \<Rightarrow> error + 'a" where
  "dict_get d k = (case map_of d k of Some v \<Rightarrow> Inr v | None \<Rightarrow> Inl KeyError)"

section \<open>Run names\<close>

text \<open>\<open>name.split(".")\<close> and the substring test \<open>'piControl' in name\<close>.\<close>

fun split_dot :: "string \<Rightarrow> string list" where
  "split_dot [] = [[]]"
| "split_dot (c # cs) =
     (if c = CHR ''.'' then [] # split_dot cs
      else (case split_dot cs of [] \<Rightarrow> [[c]] | p # ps \<Rightarrow> (c # p) # ps))"

definition model_name_of :: "string \<Rightarrow> error + string" where
  "model_name_of name =
     (let parts = split_dot name in if 2 < length parts then Inr (parts ! 2) else Inl IndexError)"

fun startswith :: "string \<Rightarrow> string \<Rightarrow> bool" where
  "startswith [] s = True"
| "startswith (c # cs) [] = False"
| "startswith (c # cs) (d # ds) = (c = d \<and> startswith cs ds)"

fun contains :: "string \<Rightarrow> string \<Rightarrow> bool" where
  "contains sub [] = (sub = [])"
| "contains sub (c # cs) = (startswith sub (c # cs) \<or> contains sub cs)"

section \<open>Datasets\<close>

text \<open>
  What the loop reads of an xarray dataset: its dimensions with their sizes, its
  coordinate variables, its data variables, and the calendar year of every time step
  (what \<open>time.year\<close> gives once \<open>xr.decode_cf\<close> has decoded the time axis).
  Coordinates are index coordinates, one-dimensional along the dimension of their name;
  data variables are indexed by time and the two spatial dimensions, with one time step
  for every entry of \<open>years\<close>, and their names are taken to be disjoint from the
  coordinate names.
\<close>

record dataset =
  dims :: "(string \<times> nat) list"
  coords :: "(string \<times> real list) list"
  data_vars :: "(string \<times> field) list"
  years :: "int list"

definition ds_keys :: "dataset \<Rightarrow> string list" where
  "ds_keys ds = map fst (data_vars ds) @ map fst (coords ds)"

definition ds_dims :: "dataset \<Rightarrow> string list" where
  "ds_dims ds = map fst (dims ds)"

text \<open>\<open>ds[k]\<close> for a data variable, and for a coordinate: a dimension without a
  coordinate variable reads as \<open>0, 1, ..., n - 1\<close>, any other missing name raises.\<close>

definition ds_var :: "dataset \<Rightarrow> string \<Rightarrow> error + field" where
  "ds_var ds k = (case map_of (data_vars ds) k of Some f \<Rightarrow> Inr f | None \<Rightarrow> Inl KeyError)"

definition ds_coord :: "dataset \<Rightarrow> string \<Rightarrow> error + real list" where
  "ds_coord ds k =
     (case map_of (coords ds) k of
        Some v \<Rightarrow> Inr v
      | None \<Rightarrow> (case map_of (dims ds) k of
                   Some n \<Rightarrow> Inr (map real [0..<n])
                 | None \<Rightarrow> Inl KeyError))"

text \<open>
  \<open>ds.rename(name_dict)\<close>: raises ValueError when an old name is neither a variable
  nor a dimension of the dataset, or when a new name collides with another variable.
\<close>

definition rename_key :: "(string \<times> string) list \<Rightarrow> string \<Rightarrow> string" where
  "rename_key nd k = (case map_of nd k of Some k' \<Rightarrow> k' | None \<Rightarrow> k)"

definition ds_rename :: "(string \<times> string) list \<Rightarrow> dataset \<Rightarrow> error + dataset" where
  "ds_rename nd ds =
     (if \<not> list_all (\<lambda>k. k \<in> set (ds_keys ds) \<or> k \<in> set (ds_dims ds)) (map fst nd)
      then Inl ValueError
      else if \<not> distinct (map (rename_key nd) (ds_keys ds)) then Inl ValueError
      else Inr (ds\<lparr>dims := map (apfst (rename_key nd)) (dims ds),
                   coords := map (apfst (rename_key nd)) (coords ds),
                   data_vars := map (apfst (rename_key nd)) (data_vars ds)\<rparr>))"

definition lonlat_names :: "(string \<times> string) list" where
  "lonlat_names = [(''longitude'', ''lon''), (''latitude'', ''lat'')]"

text \<open>The loop dropping every coordinate that is not \<open>lat\<close>, \<open>lon\<close> or \<open>time\<close>.\<close>

definition drop_redundant :: "dataset \<Rightarrow> dataset" where
  "drop_redundant ds =
     ds\<lparr>coords := filter (\<lambda>p. fst p \<in> set [''lat'', ''lon'', ''time'']) (coords ds)\<rparr>"

section \<open>The loop over the radiation datasets\<close>

text \<open>A global-mean series keeps the year of each of its time steps.\<close>

type_synonym series = "(int \<times> npfloat) list"

record dicts =
  gmst_dict :: "(string \<times> series) list"
  imbalance_dict :: "(string \<times> series) list"

definition has_fluxes :: "dataset \<Rightarrow> bool" where
  "has_fluxes ds =
     (''rsdt'' \<in> set (ds_keys ds) \<and> ''rsut'' \<in> set (ds_keys ds) \<and> ''rlut'' \<in> set (ds_keys ds))"

text \<open>The conditional renaming: the test reads the dimensions of \<open>ds_rad\<close> only, and
  both datasets are renamed under it.\<close>

definition rename_spatial :: "dataset \<Rightarrow> dataset \<Rightarrow> error + (dataset \<times> dataset)" where
  "rename_spatial ds_rad ds_tas =
     (if ''longitude'' \<in> set (ds_dims ds_rad) \<and> ''latitude'' \<in> set (ds_dims ds_rad)
      then err_bind (ds_rename lonlat_names ds_rad) (\<lambda>r.
           err_bind (ds_rename lonlat_names ds_tas) (\<lambda>t. Inr (r, t)))
      else Inr (ds_rad, ds_tas))"

definition gmst_of :: "dataset \<Rightarrow> error + series" where
  "gmst_of ds_tas =
     err_bind (ds_coord ds_tas ''lat'') (\<lambda>lat.
     err_bind (ds_coord ds_tas ''lon'') (\<lambda>lon.
     err_bind (ds_var ds_tas ''tas'') (\<lambda>tas.
     Inr (zip (years ds_tas) (global_mean lat lon tas)))))"

definition imbalance_series_of :: "dataset \<Rightarrow> error + series" where
  "imbalance_series_of ds_rad =
     err_bind (ds_var ds_rad ''rsdt'') (\<lambda>rsdt.
     err_bind (ds_var ds_rad ''rsut'') (\<lambda>rsut.
     err_bind (ds_var ds_rad ''rlut'') (\<lambda>rlut.
     err_bind (ds_coord ds_rad ''lat'') (\<lambda>lat.
     err_bind (ds_coord ds_rad ''lon'') (\<lambda>lon.
     Inr (zip (years ds_rad) (imbalance_of lat lon rsdt rsut rlut)))))))"

text \<open>One iteration of the loop over \<open>dset_dict_rad.items()\<close>; \<open>continue\<close> returns
  the dictionaries unchanged.\<close>

definition process_run :: "(string \<times> dataset) list \<Rightarrow> string \<Rightarrow> dataset \<Rightarrow> dicts \<Rightarrow> error + dicts" where
  "process_run dset_dict_tas name ds_rad st =
     err_bind (model_name_of name) (\<lambda>model_name.
     if \<not> has_fluxes ds_rad then Inr st
     else
       err_bind (dict_get dset_dict_tas name) (\<lambda>ds_tas.
       err_bind (rename_spatial ds_rad ds_tas) (\<lambda>(ds_rad', ds_tas').
       err_bind (gmst_of (drop_redundant ds_tas')) (\<lambda>gmst.
       err_bind (imbalance_series_of (drop_redundant ds_rad')) (\<lambda>imbalance.
       Inr (st\<lparr>imbalance_dict := AList.update name imbalance (imbalance_dict st),
                gmst_dict := AList.update name gmst (gmst_dict st)\<rparr>))))))"

fun load_loop :: "(string \<times> dataset) list \<Rightarrow> (string \<times> dataset) list \<Rightarrow> dicts \<Rightarrow> error + dicts" where
  "load_loop dset_dict_tas [] st = Inr st"
| "load_loop dset_dict_tas ((name, ds_rad) # rest) st =
     err_bind (process_run dset_dict_tas name ds_rad st) (load_loop dset_dict_tas rest)"

definition empty_dicts :: dicts where
  "empty_dicts = \<lparr>gmst_dict = [], imbalance_dict = []\<rparr>"

text \<open>What holds of the dictionaries while the loop runs: every run filed under
  \<open>gmst_dict\<close> is filed under \<open>imbalance_dict\<close> too, its name has a model part, and it
  came from a radiation dataset with the three fluxes and a temperature dataset.\<close>

definition loaded_from :: "(string \<times> dataset) list \<Rightarrow> (string \<times> dataset) list \<Rightarrow> dicts \<Rightarrow> bool" where
  "loaded_from tas rad st \<longleftrightarrow>
     (\<forall>k \<in> fst ` set (gmst_dict st).
        k \<in> fst ` set (imbalance_dict st) \<and> (\<exists>m. model_name_of k = Inr m) \<and>
        (\<exists>ds. (k, ds) \<in> set rad \<and> has_fluxes ds \<and> map_of tas k \<noteq> None))"

section \<open>Splitting the runs into control and quadrupling dictionaries\<close>

record split =
  ctrl_gmst_dict :: "(string \<times> series) list"
  ctrl_imbalance_dict :: "(string \<times> series) list"
  abrupt_gmst_dict :: "(string \<times> series) list"
  abrupt_imbalance_dict :: "(string \<times> series) list"

text \<open>
  Each of the three passes runs over \<open>gmst_dict.items()\<close>, skips the names its
  condition rejects and files the others under their model name. \<open>skip name model_name\<close>
  is the condition before \<open>continue\<close>.
\<close>

fun select_runs ::
  "(string \<Rightarrow> string \<Rightarrow> bool) \<Rightarrow> (string \<times> series) list \<Rightarrow> (string \<times> series) list \<Rightarrow>
   (string \<times> series) list \<times> (string \<times> series) list \<Rightarrow>
   error + ((string \<times> series) list \<times> (string \<times> series) list)" where
  "select_runs skip imb [] acc = Inr acc"
| "select_runs skip imb ((name, gmst) # rest) acc =
     err_bind (model_name_of name) (\<lambda>model_name.
     if skip name model_name then select_runs skip imb rest acc
     else err_bind (dict_get imb name) (\<lambda>i.
       select_runs skip imb rest
         (AList.update model_name gmst (fst acc), AList.update model_name i (snd acc))))"

definition split_runs :: "dicts \<Rightarrow> error + split" where
  "split_runs d =
     err_bind (select_runs (\<lambda>name m. \<not> contains ''piControl'' name)
                 (imbalance_dict d) (gmst_dict d) ([], [])) (\<lambda>ctrl0.
     err_bind (select_runs (\<lambda>name m. \<not> contains ''abrupt-4xCO2'' name \<or> m \<notin> set (map fst (fst ctrl0)))
                 (imbalance_dict d) (gmst_dict d) ([], [])) (\<lambda>abrupt.
     err_bind (select_runs (\<lambda>name m. \<not> contains ''piControl'' name \<or> m \<notin> set (map fst (fst abrupt)))
                 (imbalance_dict d) (gmst_dict d) ([], [])) (\<lambda>ctrl.
     Inr \<lparr>ctrl_gmst_dict = fst ctrl, ctrl_imbalance_dict = snd ctrl,
          abrupt_gmst_dict = fst abrupt, abrupt_imbalance_dict = snd abrupt\<rparr>)))"

text \<open>The cell that splits \<open>ds_dict\<close> into \<open>ctrl_dict\<close> and \<open>abrupt_dict\<close> in the same
  way is left out, as is \<open>ds_dict\<close> itself: no later cell reads them.\<close>

section \<open>Annual means, windows and baselines\<close>

text \<open>
  \<open>s.groupby('time.year').mean('time')\<close>: one value per calendar year, the years in
  ascending order. Grouping an empty series raises ValueError. The series were stored
  after \<open>.squeeze()\<close>, which removes a time axis of length one along with the other
  axes of length one; grouping the scalar that is left raises TypeError.
\<close>

definition groupby_year_mean :: "series \<Rightarrow> error + npfloat list" where
  "groupby_year_mean s =
     (if s = [] then Inl ValueError
      else if length s = 1 then Inl TypeError
      else Inr (map (\<lambda>y. np_mean (map snd (filter (\<lambda>p. fst p = y) s)))
                 (sort (remdups (map fst s)))))"

text \<open>\<open>isel(year=slice(a, b))\<close>: Python's slice, negative bounds counted from the end,
  both bounds clipped to the length.\<close>

definition slice_index :: "int \<Rightarrow> nat \<Rightarrow> nat" where
  "slice_index i n = (if i < 0 then nat (max (i + int n) 0) else min (nat i) n)"

definition py_slice :: "int \<Rightarrow> int \<Rightarrow> 'a list \<Rightarrow> 'a list" where
  "py_slice a b xs =
     (let s = slice_index a (length xs); e = slice_index b (length xs)
      in take (e - s) (drop s xs))"

text \<open>The window of the notebook. The functions below take the window as an argument,
  so that they can be run with other windows as well.\<close>

definition gregory_limits :: "int \<times> int" where
  "gregory_limits = (0, 150)"

text \<open>The anomaly of the loop over all models: the annual quadrupling series minus the
  mean of the control series over the window.\<close>

definition anomaly :: "int \<times> int \<Rightarrow> npfloat list \<Rightarrow> npfloat list \<Rightarrow> npfloat list" where
  "anomaly limits abrupt ctrl =
     map (\<lambda>s. np_sub s (np_mean (py_slice (fst limits) (snd limits) ctrl))) abrupt"



section \<open>The fit\<close>

text \<open>
  \<open>np.polyfit(x, y, 1)\<close> is numpy's, not the notebook's. It raises TypeError on an empty
  \<open>x\<close> and on vectors of different lengths; non-finite data make its least-squares
  solver raise LinAlgError. Otherwise it returns slope and intercept of the least-squares
  line, here given by the normal equations. When all \<open>x\<close> are equal the system has rank
  one: numpy scales the two columns to unit norm and returns the solution of least norm
  (with a RankWarning), and a column of zeros is scaled to NaN. That the line returned
  has the least sum of squared residuals is proved below (\<open>lstsq_line_least_squares\<close>).
\<close>

fun the_finite :: "npfloat \<Rightarrow> real" where
  "the_finite (Finite x) = x"
| "the_finite NonFinite = 0"

definition lstsq_line :: "real list \<Rightarrow> real list \<Rightarrow> error + (real \<times> real)" where
  "lstsq_line xs ys =
     (let n = real (length xs);
          sx = sum_list xs; sy = sum_list ys;
          sxx = sum_list (map2 (*) xs xs); sxy = sum_list (map2 (*) xs ys);
          d = n * sxx - sx * sx
      in if d \<noteq> 0 then (let a = (n * sxy - sx * sy) / d in Inr (a, (sy - a * sx) / n))
         else if hd xs = 0 then Inl LinAlgError
         else Inr (sy / n / (2 * hd xs), sy / n / 2))"

text \<open>The sum of squared residuals of a line, which the fit minimises.\<close>

definition sse :: "real \<Rightarrow> real \<Rightarrow> real list \<Rightarrow> real list \<Rightarrow> real" where
  "sse a b xs ys = sum_list (map2 (\<lambda>x y. (y - (a * x + b))\<^sup>2) xs ys)"

definition polyfit1 :: "npfloat list \<Rightarrow> npfloat list \<Rightarrow> error + (real \<times> real)" where
  "polyfit1 x y =
     (if x = [] then Inl TypeError
      else if length x \<noteq> length y then Inl TypeError
      else if \<not> (list_all is_finite x \<and> list_all is_finite y) then Inl LinAlgError
      else lstsq_line (map the_finite x) (map the_finite y))"

text \<open>\<open>b/(-a) / 2.0\<close> on numpy floats.\<close>

definition ecs_of :: "real \<Rightarrow> real \<Rightarrow> npfloat" where
  "ecs_of a b = np_div (np_div (Finite b) (- a)) 2"

section \<open>The loop over the models\<close>

record results =
  ECS :: "(string \<times> npfloat) list"
  ctrl_gmst :: "(string \<times> npfloat list) list"
  ctrl_imbalance :: "(string \<times> npfloat list) list"
  abrupt_gmst :: "(string \<times> npfloat list) list"
  abrupt_imbalance :: "(string \<times> npfloat list) list"

definition empty_results :: results where
  "empty_results = \<lparr>ECS = [], ctrl_gmst = [], ctrl_imbalance = [], abrupt_gmst = [],
     abrupt_imbalance = []\<rparr>"

definition apply_gregory :: "int \<times> int \<Rightarrow> string \<Rightarrow> results \<Rightarrow> error + results" where
  "apply_gregory limits name res =
     err_bind (dict_get (abrupt_imbalance res) name) (\<lambda>imb.
     if snd limits \<le> int (length imb) then
       err_bind (dict_get (abrupt_gmst res) name) (\<lambda>gm.
       err_bind (polyfit1 (py_slice (fst limits) (snd limits) gm) (py_slice (fst limits) (snd limits) imb))
         (\<lambda>(a, b). Inr (res\<lparr>ECS := AList.update name (ecs_of a b) (ECS res)\<rparr>)))
     else Inr res)"

definition gregory_step :: "int \<times> int \<Rightarrow> split \<Rightarrow> string \<Rightarrow> results \<Rightarrow> error + results" where
  "gregory_step limits sp name res =
     err_bind (dict_get (ctrl_gmst_dict sp) name) (\<lambda>cg.
     err_bind (groupby_year_mean cg) (\<lambda>cg_annual.
     err_bind (dict_get (ctrl_imbalance_dict sp) name) (\<lambda>ci.
     err_bind (groupby_year_mean ci) (\<lambda>ci_annual.
     err_bind (dict_get (abrupt_gmst_dict sp) name) (\<lambda>ag.
     err_bind (groupby_year_mean ag) (\<lambda>ag_annual.
     err_bind (dict_get (abrupt_imbalance_dict sp) name) (\<lambda>ai.
     err_bind (groupby_year_mean ai) (\<lambda>ai_annual.
     apply_gregory limits name
       (res\<lparr>ctrl_gmst := AList.update name cg_annual (ctrl_gmst res),
            ctrl_imbalance := AList.update name ci_annual (ctrl_imbalance res),
            abrupt_gmst := AList.update name (anomaly limits ag_annual cg_annual) (abrupt_gmst res),
            abrupt_imbalance :=
              AList.update name (anomaly limits ai_annual ci_annual) (abrupt_imbalance res)\<rparr>)))))))))"

fun gregory_loop :: "int \<times> int \<Rightarrow> split \<Rightarrow> string list \<Rightarrow> results \<Rightarrow> error + results" where
  "gregory_loop limits sp [] res = Inr res"
| "gregory_loop limits sp (name # rest) res =
     err_bind (gregory_step limits sp name res) (gregory_loop limits sp rest)"

definition compute_results :: "int \<times> int \<Rightarrow> split \<Rightarrow> error + results" where
  "compute_results limits sp = gregory_loop limits sp (map fst (ctrl_gmst_dict sp)) empty_results"

text \<open>The cells in sequence, from the two dataset dictionaries to the results.\<close>

definition pipeline ::
  "int \<times> int \<Rightarrow> (string \<times> dataset) list \<Rightarrow> (string \<times> dataset) list \<Rightarrow> error + results" where
  "pipeline limits dset_dict_tas dset_dict_rad =
     err_bind (load_loop dset_dict_tas dset_dict_rad empty_dicts) (\<lambda>d.
     err_bind (split_runs d) (\<lambda>sp. compute_results limits sp))"

section \<open>Sorting for presentation\<close>




section \<open>Synthetic runs\<close>

text \<open>
  Datasets on a grid of a single cell on the equator, used to run the cells on concrete
  input: \<open>cell_ds\<close> names the two spatial dimensions as given and holds one value per
  time step for each variable.
\<close>

definition cell_ds :: "string \<Rightarrow> string \<Rightarrow> int list \<Rightarrow> (string \<times> real list) list \<Rightarrow> dataset" where
  "cell_ds latname lonname ys vars =
     \<lparr>dims = [(''time'', length ys), (latname, 1), (lonname, 1)],
      coords = [(''time'', map real_of_int ys), (latname, [0]), (lonname, [0])],
      data_vars = map (\<lambda>(k, vs). (k, map (\<lambda>v. [[v]]) vs)) vars,
      years = ys\<rparr>"

definition tas_ds :: "int list \<Rightarrow> real list \<Rightarrow> dataset" where
  "tas_ds ys tas = cell_ds ''lat'' ''lon'' ys [(''tas'', tas)]"

definition rad_ds :: "int list \<Rightarrow> real list \<Rightarrow> real list \<Rightarrow> real list \<Rightarrow> dataset" where
  "rad_ds ys rsdt rsut rlut =
     cell_ds ''lat'' ''lon'' ys [(''rsdt'', rsdt), (''rsut'', rsut), (''rlut'', rlut)]"

definition ctrl_name :: string where
  "ctrl_name = ''CMIP.NCAR.CESM2.piControl.Amon.gn''"

definition abrupt_name :: string where
  "abrupt_name = ''CMIP.NCAR.CESM2.abrupt-4xCO2.Amon.gn''"

text \<open>The sensitivity stored for a model by a run of the cells, if the run finished and
  stored one.\<close>

definition ecs_result :: "error + results \<Rightarrow> string \<Rightarrow> npfloat option" where
  "ecs_result r name = (case r of Inl e \<Rightarrow> None | Inr res \<Rightarrow> map_of (ECS res) name)"


text \<open>Three models: one with both runs, one with a control run only, one whose
  quadrupling run has two time steps in a single year.\<close>

definition demo_tas :: "(string \<times> dataset) list" where
  "demo_tas =
     [(ctrl_name, tas_ds [1850, 1851, 1852] [0, 0, 3]),
      (abrupt_name, tas_ds [1850, 1851, 1852] [1, 2, 4]),
      (''CMIP.MIROC.MIROC6.piControl.Amon.gn'', tas_ds [1850, 1851, 1852] [0, 0, 0]),
      (''CMIP.BCC.BCC-ESM1.piControl.Amon.gn'', tas_ds [1850, 1851, 1852] [0, 0, 0]),
      (''CMIP.BCC.BCC-ESM1.abrupt-4xCO2.Amon.gn'', tas_ds [1850, 1850] [1, 1])]"

definition demo_rad :: "(string \<times> dataset) list" where
  "demo_rad =
     [(ctrl_name, rad_ds [1850, 1851, 1852] [340, 340, 343] [100, 100, 100] [235, 235, 235]),
      (abrupt_name, rad_ds [1850, 1851, 1852] [340, 340, 340] [100, 100, 100] [229, 231, 235]),
      (''CMIP.MIROC.MIROC6.piControl.Amon.gn'',
         rad_ds [1850, 1851, 1852] [340, 340, 340] [100, 100, 100] [240, 240, 240]),
      (''CMIP.BCC.BCC-ESM1.piControl.Amon.gn'',
         rad_ds [1850, 1851, 1852] [340, 340, 340] [100, 100, 100] [240, 240, 240]),
      (''CMIP.BCC.BCC-ESM1.abrupt-4xCO2.Amon.gn'',
         rad_ds [1850, 1850] [340, 340] [100, 100] [232, 232])]"

text \<open>The same temperature datasets without the one of the control run of MIROC6.\<close>

definition demo_tas_incomplete :: "(string \<times> dataset) list" where
  "demo_tas_incomplete =
     [(ctrl_name, tas_ds [1850, 1851, 1852] [0, 0, 3]),
      (abrupt_name, tas_ds [1850, 1851, 1852] [1, 2, 4]),
      (''CMIP.BCC.BCC-ESM1.piControl.Amon.gn'', tas_ds [1850, 1851, 1852] [0, 0, 0]),
      (''CMIP.BCC.BCC-ESM1.abrupt-4xCO2.Amon.gn'', tas_ds [1850, 1850] [1, 1])]"

text \<open>The dictionary of sensitivities of a run of the cells.\<close>

definition ecs_dict :: "error + results \<Rightarrow> error + (string \<times> npfloat) list" where
  "ecs_dict r = (case r of Inl e \<Rightarrow> Inl e | Inr res \<Rightarrow> Inr (ECS res))"

text \<open>What the cells make of these three models, stage by stage, with the window
  \<open>[0, 2)\<close>.\<close>

definition demo_dicts :: dicts where
  "demo_dicts =
     \<lparr>gmst_dict =
        [(ctrl_name, [(1850, Finite 0), (1851, Finite 0), (1852, Finite 3)]),
         (abrupt_name, [(1850, Finite 1), (1851, Finite 2), (1852, Finite 4)]),
         (''CMIP.MIROC.MIROC6.piControl.Amon.gn'',
            [(1850, Finite 0), (1851, Finite 0), (1852, Finite 0)]),
         (''CMIP.BCC.BCC-ESM1.piControl.Amon.gn'',
            [(1850, Finite 0), (1851, Finite 0), (1852, Finite 0)]),
         (''CMIP.BCC.BCC-ESM1.abrupt-4xCO2.Amon.gn'', [(1850, Finite 1), (1850, Finite 1)])],
      imbalance_dict =
        [(ctrl_name, [(1850, Finite 5), (1851, Finite 5), (1852, Finite 8)]),
         (abrupt_name, [(1850, Finite 11), (1851, Finite 9), (1852, Finite 5)]),
         (''CMIP.MIROC.MIROC6.piControl.Amon.gn'',
            [(1850, Finite 0), (1851, Finite 0), (1852, Finite 0)]),
         (''CMIP.BCC.BCC-ESM1.piControl.Amon.gn'',
            [(1850, Finite 0), (1851, Finite 0), (1852, Finite 0)]),
         (''CMIP.BCC.BCC-ESM1.abrupt-4xCO2.Amon.gn'', [(1850, Finite 8), (1850, Finite 8)])]\<rparr>"

definition demo_models :: split where
  "demo_models =
     \<lparr>ctrl_gmst_dict =
        [(''CESM2'', [(1850, Finite 0), (1851, Finite 0), (1852, Finite 3)]),
         (''BCC-ESM1'', [(1850, Finite 0), (1851, Finite 0), (1852, Finite 0)])],
      ctrl_imbalance_dict =
        [(''CESM2'', [(1850, Finite 5), (1851, Finite 5), (1852, Finite 8)]),
         (''BCC-ESM1'', [(1850, Finite 0), (1851, Finite 0), (1852, Finite 0)])],
      abrupt_gmst_dict =
        [(''CESM2'', [(1850, Finite 1), (1851, Finite 2), (1852, Finite 4)]),
         (''BCC-ESM1'', [(1850, Finite 1), (1850, Finite 1)])],
      abrupt_imbalance_dict =
        [(''CESM2'', [(1850, Finite 11), (1851, Finite 9), (1852, Finite 5)]),
         (''BCC-ESM1'', [(1850, Finite 8), (1850, Finite 8)])]\<rparr>"

definition demo_outcome :: results where
  "demo_outcome =
     \<lparr>ECS = [(''CESM2'', Finite 2)],
      ctrl_gmst =
        [(''CESM2'', [Finite 0, Finite 0, Finite 3]),
         (''BCC-ESM1'', [Finite 0, Finite 0, Finite 0])],
      ctrl_imbalance =
        [(''CESM2'', [Finite 5, Finite 5, Finite 8]),
         (''BCC-ESM1'', [Finite 0, Finite 0, Finite 0])],
      abrupt_gmst =
        [(''CESM2'', [Finite 1, Finite 2, Finite 4]), (''BCC-ESM1'', [Finite 1])],
      abrupt_imbalance =
        [(''CESM2'', [Finite 6, Finite 4, Finite 0]), (''BCC-ESM1'', [Finite 8])]\<rparr>"

section \<open>The end-to-end scenario\<close>

text \<open>
  A control run of 600 years with temperature 0 and imbalance 5 (340 in, 100 reflected,
  235 out), and a quadrupling run of 150 years whose temperature rises linearly from 0 to
  4 and whose imbalance falls linearly from 8 to 0, one time step per year.
\<close>

definition scenario_tas :: "(string \<times> dataset) list" where
  "scenario_tas =
     [(ctrl_name, tas_ds (map int [0..<600]) (map (\<lambda>t. 0) [0..<600])),
      (abrupt_name, tas_ds (map int [0..<150]) (map (\<lambda>t. 4 * real t / 149) [0..<150]))]"

definition scenario_rad :: "(string \<times> dataset) list" where
  "scenario_rad =
     [(ctrl_name,
         rad_ds (map int [0..<600]) (map (\<lambda>t. 340) [0..<600]) (map (\<lambda>t. 100) [0..<600])
           (map (\<lambda>t. 235) [0..<600])),
      (abrupt_name,
         rad_ds (map int [0..<150]) (map (\<lambda>t. 340) [0..<150]) (map (\<lambda>t. 100) [0..<150])
           (map (\<lambda>t. 232 + 8 * real t / 149) [0..<150]))]"

section \<open>Properties of the spatial average\<close>











section \<open>The fit and the sensitivity\<close>


lemma sum_sq_dev:
  "sum_list (map (\<lambda>x. (x - m)\<^sup>2) xs) =
   sum_list (map2 (*) xs xs) - 2 * m * sum_list xs + real (length xs) * m\<^sup>2"
  by (induction xs) (simp_all add: power2_eq_square algebra_simps)

lemma normal_det:
  assumes "xs \<noteq> []"
  shows "real (length xs) * sum_list (map2 (*) xs xs) - sum_list xs * sum_list xs =
         real (length xs) * sum_list (map (\<lambda>x. (x - sum_list xs / real (length xs))\<^sup>2) xs)"
proof -
  have n: "real (length xs) \<noteq> 0" using assms by simp
  show ?thesis
    unfolding sum_sq_dev using n by (simp add: power2_eq_square field_simps)
qed

lemma normal_det_zero:
  assumes "xs \<noteq> []"
    and "real (length xs) * sum_list (map2 (*) xs xs) - sum_list xs * sum_list xs = 0"
    and "u \<in> set xs"
  shows "u = sum_list xs / real (length xs)"
proof -
  have n: "real (length xs) \<noteq> 0" using assms(1) by simp
  have "sum_list (map (\<lambda>x. (x - sum_list xs / real (length xs))\<^sup>2) xs) = 0"
    using normal_det[OF assms(1)] assms(2) n by simp
  then have "\<forall>y \<in> set (map (\<lambda>x. (x - sum_list xs / real (length xs))\<^sup>2) xs). y = 0"
    by (subst (asm) sum_list_nonneg_eq_0_iff) auto
  then show ?thesis using assms(3) by auto
qed

lemma sums_linear:
  "sum_list (map (\<lambda>x. a0 * x + b0) xs) = a0 * sum_list xs + b0 * real (length xs)"
  "sum_list (map2 (*) xs (map (\<lambda>x. a0 * x + b0) xs)) =
   a0 * sum_list (map2 (*) xs xs) + b0 * sum_list xs"
  by (induction xs) (simp_all add: algebra_simps)

lemma lstsq_line_exact:
  assumes "u \<in> set xs" "v \<in> set xs" "u \<noteq> v"
  shows "lstsq_line xs (map (\<lambda>x. a0 * x + b0) xs) = Inr (a0, b0)"
proof -
  have ne: "xs \<noteq> []" using assms(1) by auto
  define n where "n = real (length xs)"
  define sx where "sx = sum_list xs"
  define sxx where "sxx = sum_list (map2 (*) xs xs)"
  have n: "n \<noteq> 0" using ne by (simp add: n_def)
  have d: "n * sxx - sx * sx \<noteq> 0"
  proof
    assume "n * sxx - sx * sx = 0"
    then have "u = sx / n" "v = sx / n"
      using normal_det_zero[OF ne _ assms(1)] normal_det_zero[OF ne _ assms(2)]
      by (simp_all add: n_def sx_def sxx_def)
    then show False using assms(3) by simp
  qed
  have a: "(n * (a0 * sxx + b0 * sx) - sx * (a0 * sx + b0 * n)) / (n * sxx - sx * sx) = a0"
  proof -
    have "n * (a0 * sxx + b0 * sx) - sx * (a0 * sx + b0 * n) = a0 * (n * sxx - sx * sx)"
      by (simp add: algebra_simps)
    then show ?thesis using d by simp
  qed
  have b: "(a0 * sx + b0 * n - a0 * sx) / n = b0" using n by simp
  show ?thesis
    unfolding lstsq_line_def Let_def sums_linear
    using d a b by (simp add: n_def sx_def sxx_def)
qed


lemma finite_list: "list_all is_finite (map Finite xs)" "map the_finite (map Finite xs) = xs"
  by (induction xs) simp_all

lemma polyfit1_finite:
  "xs \<noteq> [] \<Longrightarrow> length xs = length ys \<Longrightarrow>
   polyfit1 (map Finite xs) (map Finite ys) = lstsq_line xs ys"
  unfolding polyfit1_def by (simp add: finite_list del: map_map)

lemma polyfit1_exact:
  assumes "u \<in> set xs" "v \<in> set xs" "u \<noteq> v"
  shows "polyfit1 (map Finite xs) (map (\<lambda>x. Finite (a0 * x + b0)) xs) = Inr (a0, b0)"
proof -
  have ne: "xs \<noteq> []" using assms(1) by auto
  have m: "map (\<lambda>x. Finite (a0 * x + b0)) xs = map Finite (map (\<lambda>x. a0 * x + b0) xs)"
    by simp
  show ?thesis
    unfolding m using ne lstsq_line_exact[OF assms] by (simp add: polyfit1_finite del: map_map)
qed







subsection \<open>The fitted line minimises the squared residuals\<close>

text \<open>The line that \<open>lstsq_line\<close> returns is a least-squares line of the data: no other
  slope and intercept have a smaller sum of squared residuals. This holds on the branch
  of the normal equations and on the branch of equal abscissae alike.\<close>

lemma sse_expand:
  "(\<Sum>p\<leftarrow>ps. (snd p - (a' * fst p + b'))\<^sup>2) =
   (\<Sum>p\<leftarrow>ps. (snd p - (a * fst p + b))\<^sup>2)
   - 2 * (a' - a) * (\<Sum>p\<leftarrow>ps. (snd p - (a * fst p + b)) * fst p)
   - 2 * (b' - b) * (\<Sum>p\<leftarrow>ps. snd p - (a * fst p + b))
   + (\<Sum>p\<leftarrow>ps. ((a' - a) * fst p + (b' - (b::real)))\<^sup>2)"
  by (induction ps) (simp_all add: power2_eq_square algebra_simps)

lemma residual_sums:
  "(\<Sum>p\<leftarrow>ps. snd p - (a * fst p + b)) =
     sum_list (map snd ps) - a * sum_list (map fst ps) - b * real (length ps)"
  "(\<Sum>p\<leftarrow>ps. (snd p - (a * fst p + b)) * fst p) =
     sum_list (map2 (*) (map fst ps) (map snd ps)) - a * sum_list (map2 (*) (map fst ps) (map fst ps))
     - (b::real) * sum_list (map fst ps)"
  by (induction ps) (simp_all add: algebra_simps case_prod_beta)

lemma sse_pairs: "sse a b (map fst ps) (map snd ps) = (\<Sum>p\<leftarrow>ps. (snd p - (a * fst p + b))\<^sup>2)"
  by (induction ps) (simp_all add: sse_def case_prod_beta)

lemma sse_orthogonal:
  assumes "sum_list (map snd ps) - a * sum_list (map fst ps) - b * real (length ps) = 0"
    and "sum_list (map2 (*) (map fst ps) (map snd ps)) - a * sum_list (map2 (*) (map fst ps) (map fst ps))
     - b * sum_list (map fst ps) = 0"
  shows "sse a b (map fst ps) (map snd ps) \<le> sse a' b' (map fst ps) (map snd ps)"
proof -
  have "0 \<le> (\<Sum>p\<leftarrow>ps. ((a' - a) * fst p + (b' - b))\<^sup>2)"
    by (rule sum_list_nonneg) auto
  then show ?thesis
    unfolding sse_pairs sse_expand[of a' b' ps a b] residual_sums assms by simp
qed

lemma lstsq_line_least_squares:
  assumes "length xs = length ys" and "lstsq_line xs ys = Inr (a, b)" and "xs \<noteq> []"
  shows "sse a b xs ys \<le> sse a' b' xs ys"
proof -
  define ps where "ps = zip xs ys"
  have xs: "xs = map fst ps" and ys: "ys = map snd ps"
    using assms(1) by (simp_all add: ps_def)
  define n where "n = real (length ps)"
  define sx where "sx = sum_list (map fst ps)"
  define sy where "sy = sum_list (map snd ps)"
  define sxx where "sxx = sum_list (map2 (*) (map fst ps) (map fst ps))"
  define sxy where "sxy = sum_list (map2 (*) (map fst ps) (map snd ps))"
  define d where "d = n * sxx - sx * sx"
  have ne: "ps \<noteq> []" using assms(3) xs by auto
  then have n: "n \<noteq> 0" by (simp add: n_def)
  have r: "sy - a * sx - b * n = 0 \<and> sxy - a * sxx - b * sx = 0"
  proof (cases "d = 0")
    case False
    then have ab: "a = (n * sxy - sx * sy) / d \<and> b = (sy - a * sx) / n"
      using assms(2)
      by (auto simp: xs ys lstsq_line_def Let_def n_def sx_def sy_def sxx_def sxy_def d_def)
    then have a: "a = (n * sxy - sx * sy) / d" and b: "b = (sy - a * sx) / n"
      by blast+
    have 1: "sy - a * sx - b * n = 0" using n by (simp add: b)
    have ad: "a * d = n * sxy - sx * sy" using False by (simp add: a)
    have nb: "n * b = sy - a * sx" using n by (simp add: b)
    have "n * (sxy - a * sxx - b * sx) =
          (n * sxy - sx * sy) - a * d - (n * b - (sy - a * sx)) * sx"
      by (simp add: d_def algebra_simps)
    then have "n * (sxy - a * sxx - b * sx) = 0"
      unfolding ad nb by simp
    then show ?thesis using 1 n by simp
  next
    case True
    define c where "c = hd (map fst ps)"
    have c0: "c \<noteq> 0" and a: "a = sy / n / (2 * c)" and b: "b = sy / n / 2"
      using assms(2) True
      by (auto simp: xs ys lstsq_line_def Let_def n_def sx_def sy_def sxx_def sxy_def d_def c_def
          split: if_splits)
    have m: "map fst ps \<noteq> []" using ne by simp
    have all: "\<And>u. u \<in> set (map fst ps) \<Longrightarrow> u = sx / n"
      using normal_det_zero[OF m] True
      by (simp add: d_def n_def sx_def sxx_def)
    have "c \<in> set (map fst ps)" unfolding c_def using m by (rule hd_in_set)
    then have c: "c = sx / n" using all by blast
    have eqc: "map fst ps = map (\<lambda>p. c) ps"
      using all c by (intro map_cong) auto
    have sxc: "sx = n * c" using c n by simp
    have sxxc: "sxx = n * c * c"
    proof -
      have "sum_list (map2 (*) (map (\<lambda>p. c) ps) (map (\<lambda>p. c) ps)) = real (length ps) * c * c"
        by (induction ps) (simp_all add: algebra_simps)
      then show ?thesis by (simp add: sxx_def eqc n_def)
    qed
    have sxyc: "sxy = c * sy"
    proof -
      have "sum_list (map2 (*) (map (\<lambda>p. c) ps) (map snd ps)) = c * sum_list (map snd ps)"
        by (induction ps) (simp_all add: algebra_simps)
      then show ?thesis unfolding sxy_def sy_def by (subst eqc) simp
    qed
    have 1: "sy - a * sx - b * n = 0"
      using n c0 by (simp add: a b sxc field_simps)
    have 2: "sxy - a * sxx - b * sx = 0"
      using n c0 by (simp add: a b sxc sxxc sxyc field_simps)
    show ?thesis using 1 2 by simp
  qed
  show ?thesis
    unfolding xs ys
    using r sse_orthogonal[of ps a b a' b']
    by (simp add: n_def sx_def sy_def sxx_def sxy_def)
qed

section \<open>The presentation order\<close>







section \<open>The loop over the radiation datasets: missing fields and dimension names\<close>

lemma model_name_ctrl: "model_name_of ctrl_name = Inr ''CESM2''"
  by (simp add: model_name_of_def ctrl_name_def)

lemma model_name_abrupt: "model_name_of abrupt_name = Inr ''CESM2''"
  by (simp add: model_name_of_def abrupt_name_def)

lemma contains_names: "contains ''piControl'' ctrl_name" "\<not> contains ''abrupt-4xCO2'' ctrl_name"
  "\<not> contains ''piControl'' abrupt_name" "contains ''abrupt-4xCO2'' abrupt_name"
  by (simp_all add: ctrl_name_def abrupt_name_def)

lemma has_fluxes_rad_ds: "has_fluxes (rad_ds ys a b c)"
  by (simp add: has_fluxes_def rad_ds_def cell_ds_def ds_keys_def)

lemma names_neq: "ctrl_name \<noteq> abrupt_name" "abrupt_name \<noteq> ctrl_name"
  by (simp_all add: ctrl_name_def abrupt_name_def)

text \<open>
  Claim C6. A run without its three flux components is skipped by the test at the head of
  the iteration (\<open>missing_flux_skipped\<close> below). A run whose fluxes are there and whose
  temperature dataset is not is not skipped: the lookup \<open>dset_dict_tas[name]\<close> raises
  KeyError and ends the loop, so the complete run after it is never processed.
\<close>

theorem missing_tas_aborts:
  "load_loop [(abrupt_name, tas_ds [1850, 1851] [288, 289])]
     [(ctrl_name, rad_ds [1850, 1851] [340, 340] [100, 100] [240, 240]),
      (abrupt_name, rad_ds [1850, 1851] [340, 340] [100, 100] [236, 237])]
     empty_dicts = Inl KeyError"
  by (simp add: process_run_def model_name_ctrl has_fluxes_rad_ds dict_get_def names_neq)


lemma missing_flux_skipped:
  "\<not> has_fluxes ds_rad \<Longrightarrow> model_name_of name = Inr m \<Longrightarrow>
   process_run dset_dict_tas name ds_rad st = Inr st"
  by (simp add: process_run_def)

lemma ds_rename_missing:
  "k \<in> set (map fst nd) \<Longrightarrow> k \<notin> set (ds_keys ds) \<Longrightarrow> k \<notin> set (ds_dims ds) \<Longrightarrow>
   ds_rename nd ds = Inl ValueError"
  by (auto simp: ds_rename_def list_all_iff)

lemma ds_rename_error: "ds_rename nd ds = Inl e \<Longrightarrow> e = ValueError"
  by (auto simp: ds_rename_def split: if_splits)

lemma ds_rename_dims: "ds_rename nd ds = Inr ds' \<Longrightarrow> ds_dims ds' = map (rename_key nd) (ds_dims ds)"
  by (auto simp: ds_rename_def ds_dims_def split: if_splits)

lemma ds_coord_missing:
  "k \<notin> set (ds_keys ds) \<Longrightarrow> k \<notin> set (ds_dims ds) \<Longrightarrow> ds_coord (drop_redundant ds) k = Inl KeyError"
proof -
  assume a: "k \<notin> set (ds_keys ds)" and b: "k \<notin> set (ds_dims ds)"
  have "k \<notin> fst ` set (coords ds)" using a by (auto simp: ds_keys_def)
  then have "map_of (filter (\<lambda>p. fst p \<in> set [''lat'', ''lon'', ''time'']) (coords ds)) k = None"
    by (auto simp: map_of_eq_None_iff)
  moreover have "map_of (dims ds) k = None"
    using b by (auto simp: ds_dims_def map_of_eq_None_iff)
  ultimately show ?thesis by (simp add: ds_coord_def drop_redundant_def)
qed

text \<open>
  Claim C10, as the code has it. Whether the temperature dataset is renamed is decided by
  the dimension names of the radiation dataset alone. When the radiation dataset lacks
  \<open>longitude\<close> or \<open>latitude\<close>, the temperature dataset reaches the spatial average as it
  is, and the lookup of \<open>lat\<close> raises KeyError there when it has no such name. When the
  radiation dataset has both, a successful renaming leaves the temperature dimensions
  renamed, and a temperature dataset that lacks one of the two names makes the renaming
  raise ValueError, before any spatial average.
\<close>

theorem rename_decided_by_radiation_dims:
  "(\<not> (''longitude'' \<in> set (ds_dims ds_rad) \<and> ''latitude'' \<in> set (ds_dims ds_rad)) \<longrightarrow>
      rename_spatial ds_rad ds_tas = Inr (ds_rad, ds_tas) \<and>
      (''lat'' \<notin> set (ds_keys ds_tas) \<and> ''lat'' \<notin> set (ds_dims ds_tas) \<longrightarrow>
         gmst_of (drop_redundant ds_tas) = Inl KeyError)) \<and>
   (''longitude'' \<in> set (ds_dims ds_rad) \<and> ''latitude'' \<in> set (ds_dims ds_rad) \<longrightarrow>
      (\<forall>r t. rename_spatial ds_rad ds_tas = Inr (r, t) \<longrightarrow>
         ds_dims t = map (rename_key lonlat_names) (ds_dims ds_tas)) \<and>
      ((''longitude'' \<notin> set (ds_keys ds_tas) \<and> ''longitude'' \<notin> set (ds_dims ds_tas)) \<or>
       (''latitude'' \<notin> set (ds_keys ds_tas) \<and> ''latitude'' \<notin> set (ds_dims ds_tas)) \<longrightarrow>
         rename_spatial ds_rad ds_tas = Inl ValueError))"
proof (intro conjI impI allI)
  assume "\<not> (''longitude'' \<in> set (ds_dims ds_rad) \<and> ''latitude'' \<in> set (ds_dims ds_rad))"
  then show "rename_spatial ds_rad ds_tas = Inr (ds_rad, ds_tas)"
    by (auto simp: rename_spatial_def)
next
  assume "''lat'' \<notin> set (ds_keys ds_tas) \<and> ''lat'' \<notin> set (ds_dims ds_tas)"
  then show "gmst_of (drop_redundant ds_tas) = Inl KeyError"
    by (simp add: gmst_of_def ds_coord_missing)
next
  fix r t
  assume c: "''longitude'' \<in> set (ds_dims ds_rad) \<and> ''latitude'' \<in> set (ds_dims ds_rad)"
    and "rename_spatial ds_rad ds_tas = Inr (r, t)"
  then have "ds_rename lonlat_names ds_tas = Inr t"
    by (cases "ds_rename lonlat_names ds_rad"; cases "ds_rename lonlat_names ds_tas")
       (simp_all add: rename_spatial_def)
  then show "ds_dims t = map (rename_key lonlat_names) (ds_dims ds_tas)"
    by (rule ds_rename_dims)
next
  assume c: "''longitude'' \<in> set (ds_dims ds_rad) \<and> ''latitude'' \<in> set (ds_dims ds_rad)"
    and m: "(''longitude'' \<notin> set (ds_keys ds_tas) \<and> ''longitude'' \<notin> set (ds_dims ds_tas)) \<or>
       (''latitude'' \<notin> set (ds_keys ds_tas) \<and> ''latitude'' \<notin> set (ds_dims ds_tas))"
  have t: "ds_rename lonlat_names ds_tas = Inl ValueError"
    using m ds_rename_missing[of "''longitude''" lonlat_names ds_tas]
      ds_rename_missing[of "''latitude''" lonlat_names ds_tas]
    by (auto simp: lonlat_names_def)
  show "rename_spatial ds_rad ds_tas = Inl ValueError"
  proof (cases "ds_rename lonlat_names ds_rad")
    case (Inl e)
    then show ?thesis using c ds_rename_error[OF Inl] by (simp add: rename_spatial_def)
  next
    case (Inr r)
    then show ?thesis using c t by (simp add: rename_spatial_def)
  qed
qed

lemma long_rad_dims:
  "''longitude'' \<in> set (ds_dims (cell_ds ''latitude'' ''longitude'' ys vars))"
  "''latitude'' \<in> set (ds_dims (cell_ds ''latitude'' ''longitude'' ys vars))"
  by (simp_all add: cell_ds_def ds_dims_def)

lemma tas_ds_names:
  "''longitude'' \<notin> set (ds_keys (tas_ds ys vs))" "''longitude'' \<notin> set (ds_dims (tas_ds ys vs))"
  "\<not> (''longitude'' \<in> set (ds_dims (tas_ds ys vs)) \<and> ''latitude'' \<in> set (ds_dims (tas_ds ys vs)))"
  by (simp_all add: tas_ds_def cell_ds_def ds_dims_def ds_keys_def)

theorem rename_decided_by_radiation_dims_witness:
  "rename_spatial
     (cell_ds ''latitude'' ''longitude'' [1850, 1851]
        [(''rsdt'', [340, 340]), (''rsut'', [100, 100]), (''rlut'', [236, 237])])
     (tas_ds [1850, 1851] [288, 289]) = Inl ValueError \<and>
   rename_spatial (rad_ds [1850, 1851] [340, 340] [100, 100] [236, 237])
     (cell_ds ''latitude'' ''longitude'' [1850, 1851] [(''tas'', [288, 289])]) =
     Inr (rad_ds [1850, 1851] [340, 340] [100, 100] [236, 237],
          cell_ds ''latitude'' ''longitude'' [1850, 1851] [(''tas'', [288, 289])]) \<and>
   gmst_of (drop_redundant (cell_ds ''latitude'' ''longitude'' [1850, 1851] [(''tas'', [288, 289])])) =
     Inl KeyError"
proof -
  have a: "\<not> (''longitude'' \<in> set (ds_dims (rad_ds [1850, 1851] [340, 340] [100, 100] [236, 237])) \<and>
              ''latitude'' \<in> set (ds_dims (rad_ds [1850, 1851] [340, 340] [100, 100] [236, 237])))"
    by (simp add: rad_ds_def cell_ds_def ds_dims_def)
  have b: "''lat'' \<notin> set (ds_keys (cell_ds ''latitude'' ''longitude'' [1850, 1851] [(''tas'', [288, 289])])) \<and>
           ''lat'' \<notin> set (ds_dims (cell_ds ''latitude'' ''longitude'' [1850, 1851] [(''tas'', [288, 289])]))"
    by (simp add: cell_ds_def ds_dims_def ds_keys_def)
  show ?thesis
    using rename_decided_by_radiation_dims[of
        "cell_ds ''latitude'' ''longitude'' [1850, 1851]
           [(''rsdt'', [340, 340]), (''rsut'', [100, 100]), (''rlut'', [236, 237])]"
        "tas_ds [1850, 1851] [288, 289]"]
      rename_decided_by_radiation_dims[of
        "rad_ds [1850, 1851] [340, 340] [100, 100] [236, 237]"
        "cell_ds ''latitude'' ''longitude'' [1850, 1851] [(''tas'', [288, 289])]"]
      a b long_rad_dims tas_ds_names
    by blast
qed

text \<open>
  Claim C10 as stated fails: with radiation dimensions \<open>latitude\<close>, \<open>longitude\<close> and
  temperature dimensions \<open>lat\<close>, \<open>lon\<close> the names differ, and the iteration raises
  ValueError in the renaming; the temperature field does not reach the spatial average.
\<close>

theorem renamed_radiation_short_named_tas_counterexample:
  "ds_dims (tas_ds [1850, 1851] [288, 289]) \<noteq>
   ds_dims (cell_ds ''latitude'' ''longitude'' [1850, 1851]
        [(''rsdt'', [340, 340]), (''rsut'', [100, 100]), (''rlut'', [236, 237])]) \<and>
   process_run [(abrupt_name, tas_ds [1850, 1851] [288, 289])] abrupt_name
     (cell_ds ''latitude'' ''longitude'' [1850, 1851]
        [(''rsdt'', [340, 340]), (''rsut'', [100, 100]), (''rlut'', [236, 237])])
     empty_dicts = Inl ValueError"
proof -
  have r: "rename_spatial
     (cell_ds ''latitude'' ''longitude'' [1850, 1851]
        [(''rsdt'', [340, 340]), (''rsut'', [100, 100]), (''rlut'', [236, 237])])
     (tas_ds [1850, 1851] [288, 289]) = Inl ValueError"
    by (simp add: rename_spatial_def long_rad_dims ds_rename_missing tas_ds_names lonlat_names_def
        ds_rename_def cell_ds_def ds_keys_def ds_dims_def tas_ds_def rename_key_def)
  have f: "has_fluxes (cell_ds ''latitude'' ''longitude'' [1850, 1851]
        [(''rsdt'', [340, 340]), (''rsut'', [100, 100]), (''rlut'', [236, 237])])"
    by (simp add: has_fluxes_def cell_ds_def ds_keys_def)
  have d: "ds_dims (tas_ds [1850, 1851] [288, 289]) \<noteq>
   ds_dims (cell_ds ''latitude'' ''longitude'' [1850, 1851]
        [(''rsdt'', [340, 340]), (''rsut'', [100, 100]), (''rlut'', [236, 237])])"
    by (simp add: tas_ds_def cell_ds_def ds_dims_def)
  show ?thesis
    using d by (simp add: process_run_def model_name_abrupt f dict_get_def r)
qed

section \<open>Baseline differencing in the loop over the models\<close>

lemma err_bind_Inr_iff: "err_bind m f = Inr y \<longleftrightarrow> (\<exists>x. m = Inr x \<and> f x = Inr y)"
  by (cases m) simp_all

lemma apply_gregory_keeps:
  assumes "apply_gregory limits name r = Inr r'"
  shows "abrupt_gmst r' = abrupt_gmst r \<and> abrupt_imbalance r' = abrupt_imbalance r \<and>
    ctrl_gmst r' = ctrl_gmst r \<and> ctrl_imbalance r' = ctrl_imbalance r"
  using assms
  by (auto simp: apply_gregory_def err_bind_Inr_iff split: if_splits)

lemma gregory_step_entry:
  assumes "gregory_step limits sp name res = Inr res'"
  shows "\<exists>cg ci ag ai.
     err_bind (dict_get (ctrl_gmst_dict sp) name) groupby_year_mean = Inr cg \<and>
     err_bind (dict_get (ctrl_imbalance_dict sp) name) groupby_year_mean = Inr ci \<and>
     err_bind (dict_get (abrupt_gmst_dict sp) name) groupby_year_mean = Inr ag \<and>
     err_bind (dict_get (abrupt_imbalance_dict sp) name) groupby_year_mean = Inr ai \<and>
     map_of (abrupt_gmst res') name = Some (anomaly limits ag cg) \<and>
     map_of (abrupt_imbalance res') name = Some (anomaly limits ai ci)"
  using assms
  unfolding gregory_step_def err_bind_Inr_iff
  by (auto dest!: apply_gregory_keeps simp: update_conv')

lemma gregory_step_other:
  assumes "gregory_step limits sp name res = Inr res'" and "k \<noteq> name"
  shows "map_of (abrupt_gmst res') k = map_of (abrupt_gmst res) k"
    and "map_of (abrupt_imbalance res') k = map_of (abrupt_imbalance res) k"
  using assms
  unfolding gregory_step_def err_bind_Inr_iff
  by (auto dest!: apply_gregory_keeps simp: update_conv')

lemma gregory_loop_other:
  "gregory_loop limits sp names res = Inr res' \<Longrightarrow> k \<notin> set names \<Longrightarrow>
   map_of (abrupt_gmst res') k = map_of (abrupt_gmst res) k \<and>
   map_of (abrupt_imbalance res') k = map_of (abrupt_imbalance res) k"
proof (induction names arbitrary: res)
  case Nil
  then show ?case by simp
next
  case (Cons n names)
  from Cons.prems(1) obtain r1 where s: "gregory_step limits sp n res = Inr r1"
    and l: "gregory_loop limits sp names r1 = Inr res'"
    by (auto simp: err_bind_Inr_iff)
  have "k \<noteq> n" "k \<notin> set names" using Cons.prems(2) by auto
  then show ?case
    using Cons.IH[OF l] gregory_step_other[OF s] by simp
qed

lemma gregory_loop_entry:
  "gregory_loop limits sp names res = Inr res' \<Longrightarrow> name \<in> set names \<Longrightarrow>
   \<exists>cg ci ag ai.
     err_bind (dict_get (ctrl_gmst_dict sp) name) groupby_year_mean = Inr cg \<and>
     err_bind (dict_get (ctrl_imbalance_dict sp) name) groupby_year_mean = Inr ci \<and>
     err_bind (dict_get (abrupt_gmst_dict sp) name) groupby_year_mean = Inr ag \<and>
     err_bind (dict_get (abrupt_imbalance_dict sp) name) groupby_year_mean = Inr ai \<and>
     map_of (abrupt_gmst res') name = Some (anomaly limits ag cg) \<and>
     map_of (abrupt_imbalance res') name = Some (anomaly limits ai ci)"
proof (induction names arbitrary: res)
  case Nil
  then show ?case by simp
next
  case (Cons n names)
  from Cons.prems(1) obtain r1 where s: "gregory_step limits sp n res = Inr r1"
    and l: "gregory_loop limits sp names r1 = Inr res'"
    by (auto simp: err_bind_Inr_iff)
  show ?case
  proof (cases "name \<in> set names")
    case True
    then show ?thesis using Cons.IH[OF l] by simp
  next
    case False
    then have "name = n" using Cons.prems(2) by simp
    then show ?thesis
      using gregory_step_entry[OF s] gregory_loop_other[OF l False] by simp
  qed
qed







section \<open>Which models get a sensitivity\<close>

lemma length_anomaly: "length (anomaly limits a c) = length a"
  by (simp add: anomaly_def)

lemma apply_gregory_ECS:
  assumes "apply_gregory limits name r = Inr r'" and "m \<in> fst ` set (ECS r')"
  shows "m \<in> fst ` set (ECS r) \<or>
         (m = name \<and> (\<exists>imb. map_of (abrupt_imbalance r) name = Some imb \<and> snd limits \<le> int (length imb)))"
proof (cases "map_of (abrupt_imbalance r) name")
  case None
  then show ?thesis using assms(1) by (simp add: apply_gregory_def dict_get_def)
next
  case (Some imb)
  show ?thesis
  proof (cases "snd limits \<le> int (length imb)")
    case False
    then have "r' = r" using assms(1) Some by (simp add: apply_gregory_def dict_get_def)
    then show ?thesis using assms(2) by simp
  next
    case True
    from assms(1) Some True obtain v where "r' = r\<lparr>ECS := AList.update name v (ECS r)\<rparr>"
      by (auto simp: apply_gregory_def dict_get_def err_bind_Inr_iff)
    then have "fst ` set (ECS r') = {name} \<union> fst ` set (ECS r)"
      by (simp add: dom_update)
    then show ?thesis using assms(2) Some True by auto
  qed
qed

lemma gregory_step_ECS:
  assumes "gregory_step limits sp name res = Inr res'" and "m \<in> fst ` set (ECS res')"
  shows "m \<in> fst ` set (ECS res) \<or>
         (m = name \<and> (\<exists>ai. err_bind (dict_get (abrupt_imbalance_dict sp) name) groupby_year_mean = Inr ai \<and>
                         snd limits \<le> int (length ai)))"
proof -
  from assms(1) obtain cg ci ag ai where
    ai: "err_bind (dict_get (abrupt_imbalance_dict sp) name) groupby_year_mean = Inr ai"
    and a: "apply_gregory limits name
       (res\<lparr>ctrl_gmst := AList.update name cg (ctrl_gmst res),
            ctrl_imbalance := AList.update name ci (ctrl_imbalance res),
            abrupt_gmst := AList.update name (anomaly limits ag cg) (abrupt_gmst res),
            abrupt_imbalance :=
              AList.update name (anomaly limits ai ci) (abrupt_imbalance res)\<rparr>) = Inr res'"
    unfolding gregory_step_def err_bind_Inr_iff by auto
  from apply_gregory_ECS[OF a assms(2)] show ?thesis
    using ai by (auto simp: update_conv' length_anomaly)
qed

lemma gregory_loop_ECS:
  "gregory_loop limits sp names res = Inr res' \<Longrightarrow> m \<in> fst ` set (ECS res') \<Longrightarrow>
   m \<in> fst ` set (ECS res) \<or>
   (m \<in> set names \<and> (\<exists>ai. err_bind (dict_get (abrupt_imbalance_dict sp) m) groupby_year_mean = Inr ai \<and>
                         snd limits \<le> int (length ai)))"
proof (induction names arbitrary: res)
  case Nil
  then show ?case by simp
next
  case (Cons n names)
  from Cons.prems(1) obtain r1 where s: "gregory_step limits sp n res = Inr r1"
    and l: "gregory_loop limits sp names r1 = Inr res'"
    by (auto simp: err_bind_Inr_iff)
  from Cons.IH[OF l Cons.prems(2)] show ?case
    using gregory_step_ECS[OF s] by auto
qed

lemma gregory_step_short:
  assumes "err_bind (dict_get (ctrl_gmst_dict sp) name) groupby_year_mean = Inr cg"
    and "err_bind (dict_get (ctrl_imbalance_dict sp) name) groupby_year_mean = Inr ci"
    and "err_bind (dict_get (abrupt_gmst_dict sp) name) groupby_year_mean = Inr ag"
    and "err_bind (dict_get (abrupt_imbalance_dict sp) name) groupby_year_mean = Inr ai"
    and "int (length ai) < y1"
  shows "\<exists>res'. gregory_step (y0, y1) sp name res = Inr res' \<and> ECS res' = ECS res"
proof -
  from assms(1) obtain a where a: "dict_get (ctrl_gmst_dict sp) name = Inr a"
    "groupby_year_mean a = Inr cg" by (auto simp: err_bind_Inr_iff)
  from assms(2) obtain b where b: "dict_get (ctrl_imbalance_dict sp) name = Inr b"
    "groupby_year_mean b = Inr ci" by (auto simp: err_bind_Inr_iff)
  from assms(3) obtain c where c: "dict_get (abrupt_gmst_dict sp) name = Inr c"
    "groupby_year_mean c = Inr ag" by (auto simp: err_bind_Inr_iff)
  from assms(4) obtain d where d: "dict_get (abrupt_imbalance_dict sp) name = Inr d"
    "groupby_year_mean d = Inr ai" by (auto simp: err_bind_Inr_iff)
  have "gregory_step (y0, y1) sp name res =
    apply_gregory (y0, y1) name
       (res\<lparr>ctrl_gmst := AList.update name cg (ctrl_gmst res),
            ctrl_imbalance := AList.update name ci (ctrl_imbalance res),
            abrupt_gmst := AList.update name (anomaly (y0, y1) ag cg) (abrupt_gmst res),
            abrupt_imbalance :=
              AList.update name (anomaly (y0, y1) ai ci) (abrupt_imbalance res)\<rparr>)"
    by (simp add: gregory_step_def a b c d)
  then show ?thesis
    using assms(5)
    by (simp add: apply_gregory_def dict_get_def update_conv' length_anomaly)
qed


lemma process_run_cases:
  assumes "process_run tas name ds st = Inr st'"
  shows "(\<exists>m. model_name_of name = Inr m) \<and>
         (st' = st \<or>
          (has_fluxes ds \<and> map_of tas name \<noteq> None \<and>
           (\<exists>gm im. st' = st\<lparr>imbalance_dict := AList.update name im (imbalance_dict st),
                              gmst_dict := AList.update name gm (gmst_dict st)\<rparr>)))"
  using assms
  by (auto simp: process_run_def err_bind_Inr_iff dict_get_def
      split: if_splits option.splits prod.splits)

lemma process_run_loaded:
  assumes "process_run tas name ds st = Inr st'" and "loaded_from tas rad st"
    and "(name, ds) \<in> set rad"
  shows "loaded_from tas rad st'"
proof -
  from process_run_cases[OF assms(1)] obtain m where m: "model_name_of name = Inr m"
    and c: "st' = st \<or>
          (has_fluxes ds \<and> map_of tas name \<noteq> None \<and>
           (\<exists>gm im. st' = st\<lparr>imbalance_dict := AList.update name im (imbalance_dict st),
                              gmst_dict := AList.update name gm (gmst_dict st)\<rparr>))"
    by blast
  from c show ?thesis
  proof
    assume "st' = st"
    then show ?thesis using assms(2) by simp
  next
    assume h: "has_fluxes ds \<and> map_of tas name \<noteq> None \<and>
           (\<exists>gm im. st' = st\<lparr>imbalance_dict := AList.update name im (imbalance_dict st),
                              gmst_dict := AList.update name gm (gmst_dict st)\<rparr>)"
    then obtain gm im where st': "st' = st\<lparr>imbalance_dict := AList.update name im (imbalance_dict st),
                              gmst_dict := AList.update name gm (gmst_dict st)\<rparr>"
      by blast
    show ?thesis
      unfolding loaded_from_def
    proof
      fix k assume "k \<in> fst ` set (gmst_dict st')"
      then have k: "k = name \<or> k \<in> fst ` set (gmst_dict st)"
        by (auto simp: st' dom_update)
      have i: "fst ` set (imbalance_dict st') = {name} \<union> fst ` set (imbalance_dict st)"
        by (simp add: st' dom_update)
      from k show "k \<in> fst ` set (imbalance_dict st') \<and> (\<exists>m. model_name_of k = Inr m) \<and>
        (\<exists>ds. (k, ds) \<in> set rad \<and> has_fluxes ds \<and> map_of tas k \<noteq> None)"
      proof
        assume "k = name"
        then show ?thesis using i m h assms(3) by auto
      next
        assume "k \<in> fst ` set (gmst_dict st)"
        then show ?thesis using assms(2) i unfolding loaded_from_def by blast
      qed
    qed
  qed
qed

lemma load_loop_loaded:
  "load_loop tas items st = Inr d \<Longrightarrow> loaded_from tas rad st \<Longrightarrow> set items \<subseteq> set rad \<Longrightarrow>
   loaded_from tas rad d"
proof (induction items arbitrary: st)
  case Nil
  then show ?case by simp
next
  case (Cons p items)
  obtain name ds where p: "p = (name, ds)" by (cases p)
  from Cons.prems(1) obtain st1 where s: "process_run tas name ds st = Inr st1"
    and l: "load_loop tas items st1 = Inr d"
    by (auto simp: p err_bind_Inr_iff)
  have "loaded_from tas rad st1"
    using process_run_loaded[OF s Cons.prems(2)] Cons.prems(3) p by simp
  then show ?case using Cons.IH[OF l] Cons.prems(3) by simp
qed

lemma loaded_from_empty: "loaded_from tas rad empty_dicts"
  by (simp add: loaded_from_def empty_dicts_def)

lemma select_runs_total:
  "\<forall>(name, s) \<in> set items. (\<exists>m. model_name_of name = Inr m) \<and> name \<in> fst ` set imb \<Longrightarrow>
   \<exists>r. select_runs skip imb items acc = Inr r"
proof (induction items arbitrary: acc)
  case Nil
  then show ?case by simp
next
  case (Cons p items)
  obtain name s where p: "p = (name, s)" by (cases p)
  from Cons.prems obtain m where m: "model_name_of name = Inr m" by (auto simp: p)
  from Cons.prems have "name \<in> fst ` set imb" by (auto simp: p)
  then obtain i where i: "dict_get imb name = Inr i"
    by (cases "map_of imb name") (auto simp: dict_get_def map_of_eq_None_iff)
  have r: "\<And>acc. \<exists>r. select_runs skip imb items acc = Inr r"
    using Cons.IH Cons.prems by simp
  show ?case
    using r by (simp add: p m i)
qed

lemma select_runs_keys:
  "select_runs skip imb items acc = Inr r \<Longrightarrow> m \<in> fst ` set (fst r) \<Longrightarrow>
   m \<in> fst ` set (fst acc) \<or>
   (\<exists>name s. (name, s) \<in> set items \<and> \<not> skip name m \<and> model_name_of name = Inr m)"
proof (induction items arbitrary: acc)
  case Nil
  then show ?case by simp
next
  case (Cons p items)
  obtain name s where p: "p = (name, s)" by (cases p)
  from Cons.prems(1) obtain mn where mn: "model_name_of name = Inr mn"
    by (auto simp: p err_bind_Inr_iff)
  show ?case
  proof (cases "skip name mn")
    case True
    then have "select_runs skip imb items acc = Inr r"
      using Cons.prems(1) by (simp add: p mn)
    from Cons.IH[OF this Cons.prems(2)] show ?thesis by auto
  next
    case False
    then obtain i where
      l: "select_runs skip imb items (AList.update mn s (fst acc), AList.update mn i (snd acc)) = Inr r"
      using Cons.prems(1) by (auto simp: p mn err_bind_Inr_iff)
    from Cons.IH[OF l Cons.prems(2)] show ?thesis
      using False mn by (auto simp: p dom_update)
  qed
qed

lemma demo_load: "load_loop demo_tas demo_rad empty_dicts = Inr demo_dicts"
  by (simp add: demo_tas_def demo_rad_def demo_dicts_def process_run_def model_name_of_def
      ctrl_name_def abrupt_name_def has_fluxes_def rad_ds_def tas_ds_def cell_ds_def ds_keys_def
      dict_get_def rename_spatial_def ds_dims_def gmst_of_def imbalance_series_of_def
      drop_redundant_def ds_coord_def ds_var_def global_mean_def imbalance_of_def net_toa_def
      sub3_def sum2_def mul2_def cos_lat_2d_def deg2rad_def empty_dicts_def)

lemma demo_split_runs: "split_runs demo_dicts = Inr demo_models"
  by (simp add: demo_dicts_def demo_models_def split_runs_def model_name_of_def dict_get_def
      ctrl_name_def abrupt_name_def)

lemma demo_compute: "compute_results (0, 2) demo_models = Inr demo_outcome"
  by (simp add: compute_results_def demo_models_def demo_outcome_def gregory_step_def
      dict_get_def groupby_year_mean_def anomaly_def py_slice_def slice_index_def np_mean_def
      np_sum_def apply_gregory_def polyfit1_def lstsq_line_def ecs_of_def empty_results_def)

lemma demo_pipeline: "pipeline (0, 2) demo_tas demo_rad = Inr demo_outcome"
  by (simp add: pipeline_def demo_load demo_split_runs demo_compute)

lemma split_runs_total:
  assumes "loaded_from tas rad d"
  shows "\<exists>sp. split_runs d = Inr sp"
proof -
  have p: "\<forall>(name, s) \<in> set (gmst_dict d).
             (\<exists>m. model_name_of name = Inr m) \<and> name \<in> fst ` set (imbalance_dict d)"
    using assms unfolding loaded_from_def by force
  from select_runs_total[OF p] obtain c0 where
    c0: "select_runs (\<lambda>name m. \<not> contains ''piControl'' name)
                 (imbalance_dict d) (gmst_dict d) ([], []) = Inr c0" by blast
  from select_runs_total[OF p] obtain a where
    a: "select_runs (\<lambda>name m. \<not> contains ''abrupt-4xCO2'' name \<or> m \<notin> set (map fst (fst c0)))
                 (imbalance_dict d) (gmst_dict d) ([], []) = Inr a" by blast
  from select_runs_total[OF p] obtain c where
    c: "select_runs (\<lambda>name m. \<not> contains ''piControl'' name \<or> m \<notin> set (map fst (fst a)))
                 (imbalance_dict d) (gmst_dict d) ([], []) = Inr c" by blast
  show ?thesis unfolding split_runs_def c0 err_bind.simps a c by blast
qed

lemma split_runs_keys:
  assumes "split_runs d = Inr sp" and "m \<in> fst ` set (ctrl_gmst_dict sp)"
  shows "(\<exists>nc \<in> fst ` set (gmst_dict d). contains ''piControl'' nc \<and> model_name_of nc = Inr m) \<and>
         (\<exists>na \<in> fst ` set (gmst_dict d). contains ''abrupt-4xCO2'' na \<and> model_name_of na = Inr m) \<and>
         m \<in> fst ` set (abrupt_gmst_dict sp)"
proof -
  from assms(1) obtain c0 :: "(string \<times> series) list \<times> (string \<times> series) list"
    and a c where
    a: "select_runs (\<lambda>name m. \<not> contains ''abrupt-4xCO2'' name \<or> m \<notin> set (map fst (fst c0)))
                 (imbalance_dict d) (gmst_dict d) ([], []) = Inr a"
    and c: "select_runs (\<lambda>name m. \<not> contains ''piControl'' name \<or> m \<notin> set (map fst (fst a)))
                 (imbalance_dict d) (gmst_dict d) ([], []) = Inr c"
    and sp: "sp = \<lparr>ctrl_gmst_dict = fst c, ctrl_imbalance_dict = snd c,
          abrupt_gmst_dict = fst a, abrupt_imbalance_dict = snd a\<rparr>"
    unfolding split_runs_def err_bind_Inr_iff by blast
  have "m \<in> fst ` set (fst c)" using assms(2) sp by simp
  from select_runs_keys[OF c this] obtain nc s where
    nc: "(nc, s) \<in> set (gmst_dict d)" "contains ''piControl'' nc" "model_name_of nc = Inr m"
    and ma: "m \<in> fst ` set (fst a)"
    by auto
  from select_runs_keys[OF a ma] obtain na s' where
    na: "(na, s') \<in> set (gmst_dict d)" "contains ''abrupt-4xCO2'' na" "model_name_of na = Inr m"
    by auto
  show ?thesis using nc na ma sp by force
qed


lemma pipeline_Inr:
  assumes "pipeline limits tas rad = Inr res"
  obtains d sp where "load_loop tas rad empty_dicts = Inr d" "split_runs d = Inr sp"
    "compute_results limits sp = Inr res"
  using assms unfolding pipeline_def err_bind_Inr_iff by blast

text \<open>
  What holds of claim C5. When the cells run to the end, a model has a sensitivity only if
  the radiation dictionary holds a control run and a quadrupling run of it, each with the
  three fluxes and a temperature dataset, and its imbalance anomaly has at least \<open>y1\<close>
  time steps. After a loading loop that finished, the split into control and quadrupling
  runs raises nothing and keeps no model without a quadrupling run; and a model whose
  annual means exist and whose annual quadrupling series is shorter than \<open>y1\<close> passes
  its iteration without a sensitivity and without an exception.
\<close>

theorem ecs_only_for_eligible_models:
  "(pipeline (y0, y1) tas rad = Inr res \<and> m \<in> fst ` set (ECS res) \<longrightarrow>
      (\<exists>nc dc. (nc, dc) \<in> set rad \<and> contains ''piControl'' nc \<and> model_name_of nc = Inr m \<and>
               has_fluxes dc \<and> map_of tas nc \<noteq> None) \<and>
      (\<exists>na da. (na, da) \<in> set rad \<and> contains ''abrupt-4xCO2'' na \<and> model_name_of na = Inr m \<and>
               has_fluxes da \<and> map_of tas na \<noteq> None) \<and>
      (\<exists>an. map_of (abrupt_imbalance res) m = Some an \<and> y1 \<le> int (length an))) \<and>
   (load_loop tas rad empty_dicts = Inr d \<longrightarrow>
      (\<exists>sp. split_runs d = Inr sp \<and>
            fst ` set (ctrl_gmst_dict sp) \<subseteq> fst ` set (abrupt_gmst_dict sp))) \<and>
   (err_bind (dict_get (ctrl_gmst_dict sp) name) groupby_year_mean = Inr cg \<and>
    err_bind (dict_get (ctrl_imbalance_dict sp) name) groupby_year_mean = Inr ci \<and>
    err_bind (dict_get (abrupt_gmst_dict sp) name) groupby_year_mean = Inr ag \<and>
    err_bind (dict_get (abrupt_imbalance_dict sp) name) groupby_year_mean = Inr ai \<and>
    int (length ai) < y1 \<longrightarrow>
      (\<exists>res'. gregory_step (y0, y1) sp name res0 = Inr res' \<and> ECS res' = ECS res0))"
proof (intro conjI impI)
  assume a: "pipeline (y0, y1) tas rad = Inr res \<and> m \<in> fst ` set (ECS res)"
  then obtain d' sp' where l: "load_loop tas rad empty_dicts = Inr d'"
    and s: "split_runs d' = Inr sp'" and c: "compute_results (y0, y1) sp' = Inr res"
    using pipeline_Inr by blast
  have ld: "loaded_from tas rad d'"
    using load_loop_loaded[OF l loaded_from_empty] by simp
  from gregory_loop_ECS[OF c[unfolded compute_results_def]] a
  obtain ai' where mk: "m \<in> set (map fst (ctrl_gmst_dict sp'))"
    and ai: "err_bind (dict_get (abrupt_imbalance_dict sp') m) groupby_year_mean = Inr ai'"
    and len: "y1 \<le> int (length ai')"
    by (auto simp: empty_results_def)
  have mk': "m \<in> fst ` set (ctrl_gmst_dict sp')" using mk by simp
  from split_runs_keys[OF s mk'] obtain nc na where
    nc: "nc \<in> fst ` set (gmst_dict d')" "contains ''piControl'' nc" "model_name_of nc = Inr m"
    and na: "na \<in> fst ` set (gmst_dict d')" "contains ''abrupt-4xCO2'' na" "model_name_of na = Inr m"
    by blast
  from ld nc(1) obtain dc where "(nc, dc) \<in> set rad" "has_fluxes dc" "map_of tas nc \<noteq> None"
    unfolding loaded_from_def by blast
  then show "\<exists>nc dc. (nc, dc) \<in> set rad \<and> contains ''piControl'' nc \<and> model_name_of nc = Inr m \<and>
               has_fluxes dc \<and> map_of tas nc \<noteq> None"
    using nc by blast
  from ld na(1) obtain da where "(na, da) \<in> set rad" "has_fluxes da" "map_of tas na \<noteq> None"
    unfolding loaded_from_def by blast
  then show "\<exists>na da. (na, da) \<in> set rad \<and> contains ''abrupt-4xCO2'' na \<and> model_name_of na = Inr m \<and>
               has_fluxes da \<and> map_of tas na \<noteq> None"
    using na by blast
  from gregory_loop_entry[OF c[unfolded compute_results_def] mk] ai
  have "\<exists>ci'. map_of (abrupt_imbalance res) m = Some (anomaly (y0, y1) ai' ci')"
    by auto
  then show "\<exists>an. map_of (abrupt_imbalance res) m = Some an \<and> y1 \<le> int (length an)"
    using len by (auto simp: length_anomaly)
next
  assume l: "load_loop tas rad empty_dicts = Inr d"
  have ld: "loaded_from tas rad d"
    using load_loop_loaded[OF l loaded_from_empty] by simp
  from split_runs_total[OF ld] obtain sp' where s: "split_runs d = Inr sp'" by blast
  have "fst ` set (ctrl_gmst_dict sp') \<subseteq> fst ` set (abrupt_gmst_dict sp')"
    using split_runs_keys[OF s] by blast
  then show "\<exists>sp. split_runs d = Inr sp \<and>
            fst ` set (ctrl_gmst_dict sp) \<subseteq> fst ` set (abrupt_gmst_dict sp)"
    using s by blast
next
  assume "err_bind (dict_get (ctrl_gmst_dict sp) name) groupby_year_mean = Inr cg \<and>
    err_bind (dict_get (ctrl_imbalance_dict sp) name) groupby_year_mean = Inr ci \<and>
    err_bind (dict_get (abrupt_gmst_dict sp) name) groupby_year_mean = Inr ag \<and>
    err_bind (dict_get (abrupt_imbalance_dict sp) name) groupby_year_mean = Inr ai \<and>
    int (length ai) < y1"
  then show "\<exists>res'. gregory_step (y0, y1) sp name res0 = Inr res' \<and> ECS res' = ECS res0"
    using gregory_step_short by blast
qed


lemma demo_short_annual:
  "err_bind (dict_get (ctrl_gmst_dict demo_models) ''BCC-ESM1'') groupby_year_mean =
     Inr [Finite 0, Finite 0, Finite 0]"
  "err_bind (dict_get (ctrl_imbalance_dict demo_models) ''BCC-ESM1'') groupby_year_mean =
     Inr [Finite 0, Finite 0, Finite 0]"
  "err_bind (dict_get (abrupt_gmst_dict demo_models) ''BCC-ESM1'') groupby_year_mean =
     Inr [Finite 1]"
  "err_bind (dict_get (abrupt_imbalance_dict demo_models) ''BCC-ESM1'') groupby_year_mean =
     Inr [Finite 8]"
  by (simp_all add: demo_models_def dict_get_def groupby_year_mean_def np_mean_def np_sum_def)

theorem ecs_only_for_eligible_models_witness:
  "pipeline (0, 2) demo_tas demo_rad = Inr demo_outcome \<and>
   map fst (ECS demo_outcome) = [''CESM2''] \<and>
   (\<exists>nc dc. (nc, dc) \<in> set demo_rad \<and> contains ''piControl'' nc \<and>
      model_name_of nc = Inr ''CESM2'' \<and> has_fluxes dc \<and> map_of demo_tas nc \<noteq> None) \<and>
   (\<exists>na da. (na, da) \<in> set demo_rad \<and> contains ''abrupt-4xCO2'' na \<and>
      model_name_of na = Inr ''CESM2'' \<and> has_fluxes da \<and> map_of demo_tas na \<noteq> None) \<and>
   (\<exists>an. map_of (abrupt_imbalance demo_outcome) ''CESM2'' = Some an \<and> 2 \<le> int (length an)) \<and>
   (\<exists>res'. gregory_step (0, 2) demo_models ''BCC-ESM1'' empty_results = Inr res' \<and>
      ECS res' = ECS empty_results)"
proof -
  have m: "''CESM2'' \<in> fst ` set (ECS demo_outcome)" "map fst (ECS demo_outcome) = [''CESM2'']"
    by (simp_all add: demo_outcome_def)
  have s: "int (length [Finite 8]) < 2" by simp
  show ?thesis
    using ecs_only_for_eligible_models[of 0 2 demo_tas demo_rad demo_outcome "''CESM2''" demo_dicts
        demo_models "''BCC-ESM1''" "[Finite 0, Finite 0, Finite 0]" "[Finite 0, Finite 0, Finite 0]"
        "[Finite 1]" "[Finite 8]" empty_results]
      demo_pipeline m demo_short_annual s
    by blast
qed

text \<open>
  Claim C5 fails for a model that lacks a needed variable: with the temperature dataset
  of MIROC6's control run missing, the lookup in the loading loop raises KeyError and the
  cells stop, so the model is not skipped and CESM2, which has everything, gets no
  sensitivity; with the dataset there, CESM2 gets its sensitivity of 2.
\<close>

theorem incomplete_model_aborts_batch:
  "pipeline (0, 2) demo_tas_incomplete demo_rad = Inl KeyError \<and>
   ecs_dict (pipeline (0, 2) demo_tas demo_rad) = Inr [(''CESM2'', Finite 2)]"
proof -
  have "load_loop demo_tas_incomplete demo_rad empty_dicts = Inl KeyError"
    by (simp add: demo_tas_incomplete_def demo_rad_def process_run_def model_name_of_def
      ctrl_name_def abrupt_name_def has_fluxes_def rad_ds_def tas_ds_def cell_ds_def ds_keys_def
      dict_get_def rename_spatial_def ds_dims_def gmst_of_def imbalance_series_of_def
      drop_redundant_def ds_coord_def ds_var_def global_mean_def imbalance_of_def net_toa_def
      sub3_def sum2_def mul2_def cos_lat_2d_def deg2rad_def empty_dicts_def)
  then have a: "pipeline (0, 2) demo_tas_incomplete demo_rad = Inl KeyError"
    by (simp add: pipeline_def)
  have b: "ecs_dict (pipeline (0, 2) demo_tas demo_rad) = Inr [(''CESM2'', Finite 2)]"
    by (simp add: demo_pipeline ecs_dict_def demo_outcome_def)
  show ?thesis using a b by simp
qed

section \<open>The end-to-end scenario\<close>

lemma map2_same: "map2 f (map g ts) (map h ts) = map (\<lambda>t. f (g t) (h t)) ts"
  by (induction ts) simp_all

lemma net_toa_cells:
  "net_toa (map (\<lambda>t. [[fa t]]) ts) (map (\<lambda>t. [[fb t]]) ts) (map (\<lambda>t. [[fc t]]) ts) =
   map (\<lambda>t. [[fa t - fb t - fc t]]) ts"
proof -
  have "sub3 (map (\<lambda>t. [[fa t]]) ts) (map (\<lambda>t. [[fb t]]) ts) = map (\<lambda>t. [[fa t - fb t]]) ts"
    unfolding sub3_def map2_same by simp
  moreover have "sub3 (map (\<lambda>t. [[fa t - fb t]]) ts) (map (\<lambda>t. [[fc t]]) ts) =
    map (\<lambda>t. [[fa t - fb t - fc t]]) ts"
    unfolding sub3_def map2_same by simp
  ultimately show ?thesis by (simp add: net_toa_def)
qed

lemma global_mean_cells:
  "global_mean [0] [0] (map (\<lambda>t. [[g t]]) ts) = map (\<lambda>t. Finite (g t)) ts"
  by (simp add: global_mean_def sum2_def mul2_def cos_lat_2d_def deg2rad_def)

lemma cells_map: "map (\<lambda>v. [[v]]) (map f ts) = map (\<lambda>t. [[f t]]) ts"
  by simp

lemma gmst_of_tas_ds:
  "gmst_of (drop_redundant (tas_ds ys (map f ts))) = Inr (zip ys (map (\<lambda>t. Finite (f t)) ts))"
  unfolding gmst_of_def drop_redundant_def tas_ds_def cell_ds_def
  by (simp add: ds_coord_def ds_var_def global_mean_cells comp_def)

lemma imbalance_of_rad_ds:
  "imbalance_series_of (drop_redundant (rad_ds ys (map fa ts) (map fb ts) (map fc ts))) =
     Inr (zip ys (map (\<lambda>t. Finite (fa t - fb t - fc t)) ts))"
  unfolding imbalance_series_of_def drop_redundant_def rad_ds_def cell_ds_def
  by (simp add: ds_coord_def ds_var_def imbalance_of_def net_toa_cells global_mean_cells comp_def)

lemma rename_spatial_short:
  "rename_spatial (rad_ds ys a b c) (tas_ds ys' v) = Inr (rad_ds ys a b c, tas_ds ys' v)"
  by (simp add: rename_spatial_def rad_ds_def cell_ds_def ds_dims_def)

lemma process_run_cell:
  assumes "model_name_of name = Inr m"
    and "map_of tas name = Some (tas_ds ys' (map f ts'))"
  shows "process_run tas name (rad_ds ys (map fa ts) (map fb ts) (map fc ts)) st =
     Inr (st\<lparr>imbalance_dict :=
               AList.update name (zip ys (map (\<lambda>t. Finite (fa t - fb t - fc t)) ts)) (imbalance_dict st),
             gmst_dict := AList.update name (zip ys' (map (\<lambda>t. Finite (f t)) ts')) (gmst_dict st)\<rparr>)"
  using assms
  by (simp add: process_run_def has_fluxes_rad_ds dict_get_def rename_spatial_short
      gmst_of_tas_ds imbalance_of_rad_ds)

lemma scenario_load:
  "load_loop scenario_tas scenario_rad empty_dicts =
     Inr \<lparr>gmst_dict =
            [(ctrl_name, zip (map int [0..<600]) (map (\<lambda>t. Finite 0) [0..<600])),
             (abrupt_name, zip (map int [0..<150]) (map (\<lambda>t. Finite (4 * real t / 149)) [0..<150]))],
          imbalance_dict =
            [(ctrl_name, zip (map int [0..<600]) (map (\<lambda>t. Finite 5) [0..<600])),
             (abrupt_name, zip (map int [0..<150]) (map (\<lambda>t. Finite (8 - 8 * real t / 149)) [0..<150]))]\<rparr>"
proof -
  have a: "map_of scenario_tas ctrl_name = Some (tas_ds (map int [0..<600]) (map (\<lambda>t. 0) [0..<600]))"
    "map_of scenario_tas abrupt_name =
       Some (tas_ds (map int [0..<150]) (map (\<lambda>t. 4 * real t / 149) [0..<150]))"
    by (simp_all add: scenario_tas_def names_neq)
  show ?thesis
    unfolding scenario_rad_def load_loop.simps
      process_run_cell[OF model_name_ctrl a(1)] process_run_cell[OF model_name_abrupt a(2)]
    by (simp add: empty_dicts_def names_neq)
qed


lemma split_runs_one_model:
  "split_runs \<lparr>gmst_dict = [(ctrl_name, g1), (abrupt_name, g2)],
               imbalance_dict = [(ctrl_name, i1), (abrupt_name, i2)]\<rparr> =
   Inr \<lparr>ctrl_gmst_dict = [(''CESM2'', g1)], ctrl_imbalance_dict = [(''CESM2'', i1)],
        abrupt_gmst_dict = [(''CESM2'', g2)], abrupt_imbalance_dict = [(''CESM2'', i2)]\<rparr>"
  by (simp add: split_runs_def model_name_ctrl model_name_abrupt contains_names dict_get_def
      names_neq)

lemma np_mean_single: "np_mean [v] = v"
  by (cases v) (simp_all add: np_mean_def np_sum_def)

lemma group_means_distinct:
  "distinct (map fst ps) \<Longrightarrow>
   map (\<lambda>y. np_mean (map snd (filter (\<lambda>p. fst p = y) ps))) (map fst ps) = map snd ps"
proof (induction ps)
  case Nil
  then show ?case by simp
next
  case (Cons p ps)
  have "fst p \<notin> set (map fst ps)" using Cons.prems by simp
  then have "\<forall>q \<in> set ps. fst q \<noteq> fst p" by (metis image_eqI set_map)
  then have h: "filter (\<lambda>q. fst q = fst p) ps = []"
    by (simp add: filter_empty_conv)
  have t: "map (\<lambda>y. np_mean (map snd (filter (\<lambda>q. fst q = y) (p # ps)))) (map fst ps) =
           map (\<lambda>y. np_mean (map snd (filter (\<lambda>q. fst q = y) ps))) (map fst ps)"
    using Cons.prems by (intro map_cong) auto
  have e: "np_mean (map snd (filter (\<lambda>q. fst q = fst p) (p # ps))) = snd p"
    using h by (simp add: np_mean_single)
  have i: "map (\<lambda>y. np_mean (map snd (filter (\<lambda>q. fst q = y) ps))) (map fst ps) = map snd ps"
    using Cons.IH Cons.prems by simp
  show ?case
    by (simp only: list.map e t i)
qed

lemma groupby_one_step_per_year:
  assumes "1 < length ps" and "distinct (map fst ps)" and "sorted (map fst ps)"
  shows "groupby_year_mean ps = Inr (map snd ps)"
proof -
  have "sort (remdups (map fst ps)) = map fst ps"
    using assms(2,3) by (simp add: distinct_remdups_id sort_key_id_if_sorted)
  moreover have "ps \<noteq> []" "length ps \<noteq> 1" using assms(1) by auto
  ultimately show ?thesis
    using group_means_distinct[OF assms(2)] by (simp add: groupby_year_mean_def)
qed

lemma groupby_upt:
  assumes "1 < n"
  shows "groupby_year_mean (zip (map int [0..<n]) (map f [0..<n])) = Inr (map f [0..<n])"
proof -
  have z: "zip (map int [0..<n]) (map f [0..<n]) = map (\<lambda>t. (int t, f t)) [0..<n]"
    by (simp add: zip_map_map zip_same_conv_map)
  have "1 < length (map (\<lambda>t. (int t, f t)) [0..<n])" using assms by simp
  moreover have "distinct (map fst (map (\<lambda>t. (int t, f t)) [0..<n]))"
    by (simp add: comp_def distinct_map inj_on_def)
  moreover have "sorted (map fst (map (\<lambda>t. (int t, f t)) [0..<n]))"
    by (simp add: comp_def sorted_map)
  ultimately show ?thesis
    unfolding z using groupby_one_step_per_year by (simp add: comp_def)
qed


lemma np_sum_finite_acc: "foldl np_add (Finite a) (map Finite xs) = Finite (a + sum_list xs)"
  by (induction xs arbitrary: a) (simp_all add: add.assoc)

lemma np_mean_finite:
  "xs \<noteq> [] \<Longrightarrow> np_mean (map Finite xs) = Finite (sum_list xs / real (length xs))"
  by (simp add: np_mean_def np_sum_def np_sum_finite_acc)

lemma np_mean_const:
  assumes "ts \<noteq> []"
  shows "np_mean (map (\<lambda>t. Finite c) ts) = Finite c"
proof -
  have "map (\<lambda>t. Finite c) ts = map Finite (map (\<lambda>t. c) ts)" by simp
  moreover have "sum_list (map (\<lambda>t. c) ts) = real (length ts) * c"
    by (induction ts) (simp_all add: algebra_simps)
  ultimately show ?thesis
    using assms np_mean_finite[of "map (\<lambda>t. c) ts"] by (simp add: comp_def)
qed

lemma py_slice_upt:
  assumes "a \<le> b" and "b \<le> n"
  shows "py_slice (int a) (int b) (map f [0..<n]) = map f [a..<b]"
proof -
  have "take (b - a) (drop a [0..<n]) = [a..<b]"
    using assms by (simp add: take_upt)
  then show ?thesis
    using assms by (simp add: py_slice_def slice_index_def take_map drop_map del: drop_upt)
qed

lemma scenario_window:
  "py_slice 100 150 (map f [0..<600]) = map f [100..<150]"
  "py_slice 100 150 (map f [0..<150]) = map f [100..<150]"
  using py_slice_upt[of 100 150 600 f] py_slice_upt[of 100 150 150 f] by simp_all

lemma scenario_baseline:
  "np_mean (py_slice 100 150 (map (\<lambda>t. Finite c) [0..<600])) = Finite c"
  unfolding scenario_window by (rule np_mean_const) simp

lemma scenario_fit:
  "polyfit1 (map (\<lambda>t. Finite (4 * real t / 149)) [100..<150])
            (map (\<lambda>t. Finite (3 - 8 * real t / 149)) [100..<150]) = Inr (- 2, 3)"
proof -
  define xs where "xs = map (\<lambda>t. 4 * real t / 149) [100..<150]"
  have x: "map (\<lambda>t. Finite (4 * real t / 149)) [100..<150] = map Finite xs"
    by (simp add: xs_def)
  have y: "map (\<lambda>t. Finite (3 - 8 * real t / 149)) [100..<150] =
           map (\<lambda>x. Finite (- 2 * x + 3)) xs"
    by (simp add: xs_def)
  have u: "4 * real 100 / 149 \<in> set xs" "4 * real 101 / 149 \<in> set xs"
    unfolding xs_def set_map by (rule imageI, simp)+
  have n: "4 * real 100 / 149 \<noteq> 4 * real 101 / 149" by simp
  show ?thesis
    unfolding x y by (rule polyfit1_exact[OF u n])
qed


lemma scenario_anomalies:
  "anomaly (100, 150) (map (\<lambda>t. Finite (4 * real t / 149)) [0..<150])
     (map (\<lambda>t. Finite 0) [0..<600]) = map (\<lambda>t. Finite (4 * real t / 149)) [0..<150]"
  "anomaly (100, 150) (map (\<lambda>t. Finite (8 - 8 * real t / 149)) [0..<150])
     (map (\<lambda>t. Finite 5) [0..<600]) = map (\<lambda>t. Finite (3 - 8 * real t / 149)) [0..<150]"
  by (simp_all add: anomaly_def scenario_baseline)

lemma scenario_apply:
  assumes "abrupt_gmst r = [(''CESM2'', map (\<lambda>t. Finite (4 * real t / 149)) [0..<150])]"
    and "abrupt_imbalance r = [(''CESM2'', map (\<lambda>t. Finite (3 - 8 * real t / 149)) [0..<150])]"
  shows "apply_gregory (100, 150) ''CESM2'' r =
         Inr (r\<lparr>ECS := AList.update ''CESM2'' (Finite (3 / 4)) (ECS r)\<rparr>)"
proof -
  have e: "ecs_of (- 2) 3 = Finite (3 / 4)" by (simp add: ecs_of_def)
  have f: "polyfit1
      (py_slice 100 150 (map (\<lambda>t. Finite (4 * real t / 149)) [0..<150]))
      (py_slice 100 150 (map (\<lambda>t. Finite (3 - 8 * real t / 149)) [0..<150]))
      = Inr (- 2, 3)"
    unfolding scenario_window by (rule scenario_fit)
  show ?thesis
    unfolding apply_gregory_def assms
    by (simp add: dict_get_def f e del: upt_rec_numeral)
qed

lemma scenario_compute:
  "compute_results (100, 150)
     \<lparr>ctrl_gmst_dict = [(''CESM2'', zip (map int [0..<600]) (map (\<lambda>t. Finite 0) [0..<600]))],
      ctrl_imbalance_dict = [(''CESM2'', zip (map int [0..<600]) (map (\<lambda>t. Finite 5) [0..<600]))],
      abrupt_gmst_dict =
        [(''CESM2'', zip (map int [0..<150]) (map (\<lambda>t. Finite (4 * real t / 149)) [0..<150]))],
      abrupt_imbalance_dict =
        [(''CESM2'', zip (map int [0..<150]) (map (\<lambda>t. Finite (8 - 8 * real t / 149)) [0..<150]))]\<rparr> =
   Inr \<lparr>ECS = [(''CESM2'', Finite (3 / 4))],
        ctrl_gmst = [(''CESM2'', map (\<lambda>t. Finite 0) [0..<600])],
        ctrl_imbalance = [(''CESM2'', map (\<lambda>t. Finite 5) [0..<600])],
        abrupt_gmst = [(''CESM2'', map (\<lambda>t. Finite (4 * real t / 149)) [0..<150])],
        abrupt_imbalance = [(''CESM2'', map (\<lambda>t. Finite (3 - 8 * real t / 149)) [0..<150])]\<rparr>"
proof -
  have g: "groupby_year_mean (zip (map int [0..<600]) (map f [0..<600])) = Inr (map f [0..<600])"
    "groupby_year_mean (zip (map int [0..<150]) (map f [0..<150])) = Inr (map f [0..<150])" for f :: "nat \<Rightarrow> npfloat"
    by (rule groupby_upt, simp)+
  show ?thesis
    unfolding compute_results_def
    by (simp add: gregory_step_def dict_get_def g scenario_anomalies scenario_apply
        empty_results_def del: upt_rec_numeral)
qed

lemma scenario_pipeline:
  "pipeline (100, 150) scenario_tas scenario_rad =
   Inr \<lparr>ECS = [(''CESM2'', Finite (3 / 4))],
        ctrl_gmst = [(''CESM2'', map (\<lambda>t. Finite 0) [0..<600])],
        ctrl_imbalance = [(''CESM2'', map (\<lambda>t. Finite 5) [0..<600])],
        abrupt_gmst = [(''CESM2'', map (\<lambda>t. Finite (4 * real t / 149)) [0..<150])],
        abrupt_imbalance = [(''CESM2'', map (\<lambda>t. Finite (3 - 8 * real t / 149)) [0..<150])]\<rparr>"
  unfolding pipeline_def scenario_load err_bind.simps split_runs_one_model scenario_compute ..

text \<open>
  Claim C1, as the code computes it. With the window \<open>[100, 150)\<close> the cells give the
  scenario's model the sensitivity 3/4: differencing subtracts the control imbalance 5
  from the quadrupling imbalance, so the fitted line has slope -2 and intercept 3, and
  3 / 2 / 2 = 0.75.
\<close>

theorem scenario_ecs_three_quarters:
  "ecs_result (pipeline (100, 150) scenario_tas scenario_rad) ''CESM2'' = Some (Finite (3 / 4))"
  by (simp add: scenario_pipeline ecs_result_def)

text \<open>
  Claim C1 as stated fails: the sensitivity computed for the scenario is not 2.
\<close>

theorem scenario_ecs_not_two_counterexample:
  "ecs_result (pipeline (100, 150) scenario_tas scenario_rad) ''CESM2'' \<noteq> Some (Finite 2)"
  by (simp add: scenario_pipeline ecs_result_def)

end
